theory Spec2Isabelle
  imports Complex_Main "HOL-Library.Sublist" "HOL-Library.AList"
begin

section \<open>Python strings\<close>

text \<open>
  The two modules under verification, \<^verbatim>\<open>sql_parser.py\<close> and \<^verbatim>\<open>sql_comparator.py\<close>,
  work on Python \<^verbatim>\<open>str\<close> values with \<^verbatim>\<open>str\<close> methods and the \<^verbatim>\<open>re\<close> module.
  A Python string is modelled as a \<^typ>\<open>string\<close>. The text is taken to be ASCII: the
  character classes and the case mapping below are those of Python on the code points
  0 to 127, and a character above 127 is neither white space nor a word character and has
  no other case.
\<close>

definition newline :: char where
  "newline = CHR 0x0A"

text \<open>\<^verbatim>\<open>str.isspace\<close> on one character; also the class \<^verbatim>\<open>\s\<close> of \<^verbatim>\<open>re\<close>.\<close>

definition isspace :: "char \<Rightarrow> bool" where
  "isspace c = (c = CHR '' '' \<or> c = CHR 0x09 \<or> c = CHR 0x0A \<or> c = CHR 0x0B \<or> c = CHR 0x0C
     \<or> c = CHR 0x0D \<or> c = CHR 0x1C \<or> c = CHR 0x1D \<or> c = CHR 0x1E \<or> c = CHR 0x1F)"

definition lowercase :: string where
  "lowercase = ''abcdefghijklmnopqrstuvwxyz''"

definition uppercase :: string where
  "uppercase = ''ABCDEFGHIJKLMNOPQRSTUVWXYZ''"

definition digits :: string where
  "digits = ''0123456789''"

text \<open>The class \<^verbatim>\<open>\w\<close> of \<^verbatim>\<open>re\<close>: letters, digits and the underscore.\<close>

definition isword :: "char \<Rightarrow> bool" where
  "isword c = (c \<in> set (lowercase @ uppercase @ digits @ ''_''))"

definition upper_char :: "char \<Rightarrow> char" where
  "upper_char c = (case map_of (zip lowercase uppercase) c of Some u \<Rightarrow> u | None \<Rightarrow> c)"

text \<open>\<^verbatim>\<open>s.upper()\<close>\<close>

definition upper :: "string \<Rightarrow> string" where
  "upper s = map upper_char s"

text \<open>\<^verbatim>\<open>s.strip()\<close>\<close>

definition strip :: "string \<Rightarrow> string" where
  "strip s = rev (dropWhile isspace (rev (dropWhile isspace s)))"

text \<open>\<^verbatim>\<open>s.startswith(p)\<close>\<close>

definition startswith :: "string \<Rightarrow> string \<Rightarrow> bool" where
  "startswith s p = prefix p s"

text \<open>\<^verbatim>\<open>s.count('\n')\<close>, as the integer Python adds to its line counter.\<close>

definition count_newlines :: "string \<Rightarrow> int" where
  "count_newlines s = int (length (filter (\<lambda>c. c = newline) s))"

text \<open>
  \<^verbatim>\<open>s.split(sep)\<close> for a non-empty separator: the pieces between the successive
  occurrences of \<^verbatim>\<open>sep\<close>, found from the left and not overlapping. The second argument
  is the piece read so far.
\<close>

fun split_acc :: "string \<Rightarrow> string \<Rightarrow> string \<Rightarrow> string list" where
  "split_acc sep acc [] = [acc]"
| "split_acc sep acc (x # xs) =
     (if prefix sep (x # xs) then acc # split_acc sep [] (drop (length sep - 1) xs)
      else split_acc sep (acc @ [x]) xs)"

definition split :: "string \<Rightarrow> string \<Rightarrow> string list" where
  "split s sep = split_acc sep [] s"

text \<open>
  \<^verbatim>\<open>s.split(sep, 1)\<close>: at most one split, at the first occurrence of \<^verbatim>\<open>sep\<close>.
\<close>

fun split1_acc :: "string \<Rightarrow> string \<Rightarrow> string \<Rightarrow> string list" where
  "split1_acc sep acc [] = [acc]"
| "split1_acc sep acc (x # xs) =
     (if prefix sep (x # xs) then [acc, drop (length sep) (x # xs)]
      else split1_acc sep (acc @ [x]) xs)"

definition split1 :: "string \<Rightarrow> string \<Rightarrow> string list" where
  "split1 s sep = split1_acc sep [] s"

text \<open>\<^verbatim>\<open>sub in s\<close> for strings.\<close>

fun contains :: "string \<Rightarrow> string \<Rightarrow> bool" where
  "contains [] sub = (sub = [])"
| "contains (x # xs) sub = (prefix sub (x # xs) \<or> contains xs sub)"

text \<open>
  \<^verbatim>\<open>s.split()\<close>: the maximal runs of characters that are not white space. The second
  argument is the run read so far.
\<close>

fun split_ws_acc :: "string \<Rightarrow> string \<Rightarrow> string list" where
  "split_ws_acc acc [] = (if acc = [] then [] else [acc])"
| "split_ws_acc acc (x # xs) =
     (if isspace x then (if acc = [] then split_ws_acc [] xs else acc # split_ws_acc [] xs)
      else split_ws_acc (acc @ [x]) xs)"

definition split_ws :: "string \<Rightarrow> string list" where
  "split_ws s = split_ws_acc [] s"

text \<open>\<^verbatim>\<open>sep.join(xs)\<close>\<close>

fun join :: "string \<Rightarrow> string list \<Rightarrow> string" where
  "join sep [] = []"
| "join sep [x] = x"
| "join sep (x # y # ys) = x @ sep @ join sep (y # ys)"

text \<open>
  \<^verbatim>\<open>s.splitlines()\<close> on ASCII text: a line ends at \<^verbatim>\<open>\n\<close>, \<^verbatim>\<open>\r\<close>, \<^verbatim>\<open>\r\n\<close>,
  \<^verbatim>\<open>\v\<close>, \<^verbatim>\<open>\f\<close> or one of the separators 0x1C, 0x1D, 0x1E, and no empty last line
  is produced.
\<close>

definition islinebreak :: "char \<Rightarrow> bool" where
  "islinebreak c = (c = CHR 0x0A \<or> c = CHR 0x0B \<or> c = CHR 0x0C \<or> c = CHR 0x0D
     \<or> c = CHR 0x1C \<or> c = CHR 0x1D \<or> c = CHR 0x1E)"

fun splitlines_acc :: "string \<Rightarrow> string \<Rightarrow> string list" where
  "splitlines_acc acc [] = (if acc = [] then [] else [acc])"
| "splitlines_acc acc [x] = (if islinebreak x then [acc] else [acc @ [x]])"
| "splitlines_acc acc (x # y # ys) =
     (if x = CHR 0x0D \<and> y = CHR 0x0A then acc # splitlines_acc [] ys
      else if islinebreak x then acc # splitlines_acc [] (y # ys)
      else splitlines_acc (acc @ [x]) (y # ys))"

definition splitlines :: "string \<Rightarrow> string list" where
  "splitlines s = splitlines_acc [] s"

text \<open>\<^verbatim>\<open>str(n)\<close> for a length, as an f-string prints it.\<close>

definition digit_char :: "nat \<Rightarrow> char" where
  "digit_char d = digits ! d"

fun str_nat :: "nat \<Rightarrow> string" where
  "str_nat n = (if n < 10 then [digit_char n] else str_nat (n div 10) @ [digit_char (n mod 10)])"

section \<open>Python regular expressions\<close>

text \<open>
  The patterns of \<^verbatim>\<open>sql_parser.py\<close> use literal characters, the classes \<^verbatim>\<open>.\<close>,
  \<^verbatim>\<open>\s\<close>, \<^verbatim>\<open>\w\<close> and \<^verbatim>\<open>[^c]\<close>, concatenation, alternation, the greedy
  \<^verbatim>\<open>*\<close>, \<^verbatim>\<open>+\<close> and \<^verbatim>\<open>?\<close>, the lazy \<^verbatim>\<open>*?\<close>, capturing groups, one positive
  lookahead and \<^verbatim>\<open>$\<close>. Every \<^verbatim>\<open>*\<close> and \<^verbatim>\<open>+\<close> is applied to a single character
  class, so the abstract syntax repeats classes only.
\<close>

datatype cls =
    Lit char     \<comment> \<open>a literal character\<close>
  | Dot          \<comment> \<open>\<^verbatim>\<open>.\<close>\<close>
  | Space        \<comment> \<open>\<^verbatim>\<open>\s\<close>\<close>
  | Word         \<comment> \<open>\<^verbatim>\<open>\w\<close>\<close>
  | Not char     \<comment> \<open>\<^verbatim>\<open>[^c]\<close>\<close>

datatype regex =
    Eps                    \<comment> \<open>the empty pattern\<close>
  | Cls cls                \<comment> \<open>one character of a class\<close>
  | Seq regex regex        \<comment> \<open>\<^verbatim>\<open>ab\<close>\<close>
  | Alt regex regex        \<comment> \<open>\<^verbatim>\<open>a|b\<close>\<close>
  | Star cls               \<comment> \<open>\<^verbatim>\<open>c*\<close>, greedy\<close>
  | StarLazy cls           \<comment> \<open>\<^verbatim>\<open>c*?\<close>, lazy\<close>
  | Opt regex              \<comment> \<open>\<^verbatim>\<open>(?:a)?\<close>, greedy\<close>
  | Group nat regex        \<comment> \<open>\<^verbatim>\<open>(a)\<close>, the capturing group of that number\<close>
  | Look regex             \<comment> \<open>\<^verbatim>\<open>(?=a)\<close>\<close>
  | Eos                    \<comment> \<open>\<^verbatim>\<open>$\<close> without \<^verbatim>\<open>re.MULTILINE\<close>\<close>

text \<open>\<^verbatim>\<open>c+\<close>, a literal word and a sequence of patterns.\<close>

definition Plus :: "cls \<Rightarrow> regex" where
  "Plus c = Seq (Cls c) (Star c)"

fun Str :: "string \<Rightarrow> regex" where
  "Str [] = Eps"
| "Str (c # cs) = Seq (Cls (Lit c)) (Str cs)"

fun Seqs :: "regex list \<Rightarrow> regex" where
  "Seqs [] = Eps"
| "Seqs (r # rs) = Seq r (Seqs rs)"

text \<open>
  The flags a pattern is compiled with: \<^verbatim>\<open>re.IGNORECASE\<close> compares literals modulo
  case, \<^verbatim>\<open>re.DOTALL\<close> lets \<^verbatim>\<open>.\<close> match a newline.
\<close>

record flags =
  ignorecase :: bool
  dotall :: bool

fun cmatch :: "flags \<Rightarrow> cls \<Rightarrow> char \<Rightarrow> bool" where
  "cmatch f (Lit c) x = (if ignorecase f then upper_char x = upper_char c else x = c)"
| "cmatch f Dot x = (if dotall f then True else x \<noteq> newline)"
| "cmatch f Space x = isspace x"
| "cmatch f Word x = isword x"
| "cmatch f (Not c) x = (x \<noteq> c)"

text \<open>
  The matcher is the backtracking search of \<^verbatim>\<open>re\<close>, written with a continuation: the
  continuation \<open>k\<close> stands for the rest of the pattern, it receives the input that is
  left and the groups captured so far, and \<open>None\<close> makes the matcher try its next
  alternative. A greedy repetition tries the longest run first, a lazy one the shortest.
\<close>

type_synonym groups = "nat \<Rightarrow> string option"
type_synonym mres = "string \<times> groups"

fun star_greedy :: "(char \<Rightarrow> bool) \<Rightarrow> string \<Rightarrow> (string \<Rightarrow> mres option) \<Rightarrow> mres option" where
  "star_greedy p [] k = k []"
| "star_greedy p (x # xs) k =
     (if p x then (case star_greedy p xs k of Some r \<Rightarrow> Some r | None \<Rightarrow> k (x # xs))
      else k (x # xs))"

fun star_lazy :: "(char \<Rightarrow> bool) \<Rightarrow> string \<Rightarrow> (string \<Rightarrow> mres option) \<Rightarrow> mres option" where
  "star_lazy p [] k = k []"
| "star_lazy p (x # xs) k =
     (case k (x # xs) of Some r \<Rightarrow> Some r
      | None \<Rightarrow> if p x then star_lazy p xs k else None)"

fun rmatch :: "flags \<Rightarrow> regex \<Rightarrow> string \<Rightarrow> groups \<Rightarrow> (string \<Rightarrow> groups \<Rightarrow> mres option) \<Rightarrow> mres option" where
  "rmatch f Eps s g k = k s g"
| "rmatch f (Cls c) s g k =
     (case s of [] \<Rightarrow> None | x # xs \<Rightarrow> if cmatch f c x then k xs g else None)"
| "rmatch f (Seq a b) s g k = rmatch f a s g (\<lambda>s' g'. rmatch f b s' g' k)"
| "rmatch f (Alt a b) s g k =
     (case rmatch f a s g k of Some r \<Rightarrow> Some r | None \<Rightarrow> rmatch f b s g k)"
| "rmatch f (Star c) s g k = star_greedy (cmatch f c) s (\<lambda>s'. k s' g)"
| "rmatch f (StarLazy c) s g k = star_lazy (cmatch f c) s (\<lambda>s'. k s' g)"
| "rmatch f (Opt a) s g k =
     (case rmatch f a s g k of Some r \<Rightarrow> Some r | None \<Rightarrow> k s g)"
| "rmatch f (Group n a) s g k =
     rmatch f a s g (\<lambda>s' g'. k s' (g'(n \<mapsto> take (length s - length s') s)))"
| "rmatch f (Look a) s g k =
     (case rmatch f a s g (\<lambda>s' g'. Some (s', g')) of None \<Rightarrow> None | Some r \<Rightarrow> k s g)"
| "rmatch f Eos s g k = (if s = [] \<or> s = [newline] then k s g else None)"

text \<open>
  A match object: the text before the match, the matched text, the text after it and the
  groups. \<^verbatim>\<open>re.search\<close> tries the start positions from the left and returns the first
  match.
\<close>

record rmatch_obj =
  before :: string
  matched :: string
  after :: string
  grps :: groups

definition match_at :: "flags \<Rightarrow> regex \<Rightarrow> string \<Rightarrow> string \<Rightarrow> rmatch_obj option" where
  "match_at f r pre s =
     (case rmatch f r s Map.empty (\<lambda>s' g. Some (s', g)) of
        None \<Rightarrow> None
      | Some (s', g) \<Rightarrow>
          Some \<lparr>before = pre, matched = take (length s - length s') s, after = s', grps = g\<rparr>)"

fun search_from :: "flags \<Rightarrow> regex \<Rightarrow> string \<Rightarrow> string \<Rightarrow> rmatch_obj option" where
  "search_from f r pre [] = match_at f r pre []"
| "search_from f r pre (x # xs) =
     (case match_at f r pre (x # xs) of
        Some m \<Rightarrow> Some m
      | None \<Rightarrow> search_from f r (pre @ [x]) xs)"

definition re_search :: "flags \<Rightarrow> regex \<Rightarrow> string \<Rightarrow> rmatch_obj option" where
  "re_search f r s = search_from f r [] s"

text \<open>\<^verbatim>\<open>m.group(n)\<close>: \<open>None\<close> when the group took no part in the match.\<close>

definition group :: "rmatch_obj \<Rightarrow> nat \<Rightarrow> string option" where
  "group m n = grps m n"

text \<open>
  \<^verbatim>\<open>re.finditer\<close> and \<^verbatim>\<open>re.sub\<close> go through the successive matches, each search
  starting where the last match ended. No pattern they are used with here matches the
  empty string, so every match shortens the text that is left; the test on the lengths
  only makes that visible to the termination proof.
\<close>

function re_finditer :: "flags \<Rightarrow> regex \<Rightarrow> string \<Rightarrow> rmatch_obj list" where
  "re_finditer f r s =
     (case re_search f r s of
        None \<Rightarrow> []
      | Some m \<Rightarrow> if length (after m) < length s then m # re_finditer f r (after m) else [m])"
  by pat_completeness auto
termination
  by (relation "measure (\<lambda>(f, r, s). length s)") auto

text \<open>\<^verbatim>\<open>re.findall\<close> for a pattern without groups: the matched texts.\<close>

definition re_findall :: "flags \<Rightarrow> regex \<Rightarrow> string \<Rightarrow> string list" where
  "re_findall f r s = map matched (re_finditer f r s)"

text \<open>\<^verbatim>\<open>re.sub(pattern, r'\1', s)\<close>: every match is replaced by its first group.\<close>

definition group_text :: "rmatch_obj \<Rightarrow> nat \<Rightarrow> string" where
  "group_text m n = (case grps m n of None \<Rightarrow> [] | Some t \<Rightarrow> t)"

function re_sub_group1 :: "flags \<Rightarrow> regex \<Rightarrow> string \<Rightarrow> string" where
  "re_sub_group1 f r s =
     (case re_search f r s of
        None \<Rightarrow> s
      | Some m \<Rightarrow>
          before m @ group_text m 1 @
          (if length (after m) < length s then re_sub_group1 f r (after m) else after m))"
  by pat_completeness auto
termination
  by (relation "measure (\<lambda>(f, r, s). length s)") auto

section \<open>The object model\<close>

datatype SQLObjectType =
  VIEW | MATERIALIZED_VIEW | FUNCTION | TABLE | INDEX | TRIGGER | GRANT | COMMENT | CTE

text \<open>The \<^verbatim>\<open>value\<close> of a member of the enumeration.\<close>

fun type_value :: "SQLObjectType \<Rightarrow> string" where
  "type_value VIEW = ''VIEW''"
| "type_value MATERIALIZED_VIEW = ''MATERIALIZED_VIEW''"
| "type_value FUNCTION = ''FUNCTION''"
| "type_value TABLE = ''TABLE''"
| "type_value INDEX = ''INDEX''"
| "type_value TRIGGER = ''TRIGGER''"
| "type_value GRANT = ''GRANT''"
| "type_value COMMENT = ''COMMENT''"
| "type_value CTE = ''CTE''"

text \<open>
  The dictionaries \<^verbatim>\<open>{'name': .., 'definition': ..}\<close> of a CTE and
  \<^verbatim>\<open>{'type': .., 'table': .., 'condition': ..}\<close> of a join; a join's condition may be
  \<^verbatim>\<open>None\<close>.
\<close>

record cte =
  cte_name :: string
  cte_definition :: string

record join_info =
  join_type :: string
  join_table :: string
  join_condition :: "string option"

text \<open>
  The dataclass \<^verbatim>\<open>SQLObject\<close>. The fields \<^verbatim>\<open>comments\<close>, \<^verbatim>\<open>columns\<close>,
  \<^verbatim>\<open>joins\<close> and \<^verbatim>\<open>ctes\<close> have no default and every constructor call of the parser
  passes a list for them; \<^verbatim>\<open>parameters\<close>, \<^verbatim>\<open>return_type\<close> and \<^verbatim>\<open>grants\<close>
  default to \<^verbatim>\<open>None\<close>.
\<close>

record SQLObject =
  name :: string
  type' :: SQLObjectType
  definition' :: string
  start_line :: int
  end_line :: int
  comments :: "string list"
  columns :: "string list"
  joins :: "join_info list"
  where_clause :: "string option"
  group_by :: "string option"
  order_by :: "string option"
  ctes :: "cte list"
  parameters :: "string list option"
  return_type :: "string option"
  grants :: "string list option"

section \<open>The parser\<close>

text \<open>The exceptions that the parser and the comparator can raise.\<close>

datatype error = ValueError | IndexError | AttributeError

definition flags_none :: flags where
  "flags_none = \<lparr>ignorecase = False, dotall = False\<rparr>"

definition flags_I :: flags where
  "flags_I = \<lparr>ignorecase = True, dotall = False\<rparr>"

definition flags_S :: flags where
  "flags_S = \<lparr>ignorecase = False, dotall = True\<rparr>"

definition flags_IS :: flags where
  "flags_IS = \<lparr>ignorecase = True, dotall = True\<rparr>"

subsection \<open>Classification\<close>

text \<open>\<^verbatim>\<open>SQLParser._get_object_type\<close>\<close>

definition get_object_type :: "string \<Rightarrow> SQLObjectType option" where
  "get_object_type statement =
     (let statement_upper = upper statement in
      if startswith statement_upper ''CREATE OR REPLACE VIEW'' then Some VIEW
      else if startswith statement_upper ''CREATE MATERIALIZED VIEW'' then Some MATERIALIZED_VIEW
      else if startswith statement_upper ''CREATE OR REPLACE FUNCTION'' then Some FUNCTION
      else if startswith statement_upper ''CREATE TABLE'' then Some TABLE
      else if startswith statement_upper ''CREATE INDEX'' then Some INDEX
      else if startswith statement_upper ''CREATE TRIGGER'' then Some TRIGGER
      else if startswith statement_upper ''GRANT'' then Some GRANT
      else if startswith statement_upper ''COMMENT ON'' then Some COMMENT
      else None)"

subsection \<open>Names\<close>

text \<open>The pattern \<^verbatim>\<open>\w+(?:\.\w+)?\<close> of a name, which every name pattern captures.\<close>

definition qualified_name :: regex where
  "qualified_name = Seq (Plus Word) (Opt (Seq (Cls (Lit CHR ''.'')) (Plus Word)))"

text \<open>
  The dictionary \<^verbatim>\<open>patterns\<close> of \<^verbatim>\<open>SQLParser._extract_object_name\<close>; it has no
  entry for \<^verbatim>\<open>CTE\<close>.
\<close>

fun patterns :: "SQLObjectType \<Rightarrow> regex option" where
  "patterns VIEW = Some (Seqs [Str ''CREATE'', Plus Space,
       Opt (Seqs [Str ''OR'', Plus Space, Str ''REPLACE'', Plus Space]),
       Str ''VIEW'', Plus Space, Group 1 qualified_name])"
| "patterns MATERIALIZED_VIEW = Some (Seqs [Str ''CREATE'', Plus Space,
       Str ''MATERIALIZED'', Plus Space, Str ''VIEW'', Plus Space, Group 1 qualified_name])"
| "patterns FUNCTION = Some (Seqs [Str ''CREATE'', Plus Space,
       Opt (Seqs [Str ''OR'', Plus Space, Str ''REPLACE'', Plus Space]),
       Str ''FUNCTION'', Plus Space, Group 1 qualified_name])"
| "patterns TABLE = Some (Seqs [Str ''CREATE'', Plus Space, Str ''TABLE'', Plus Space,
       Group 1 qualified_name])"
| "patterns INDEX = Some (Seqs [Str ''CREATE'', Plus Space,
       Opt (Seqs [Str ''UNIQUE'', Plus Space]),
       Str ''INDEX'', Plus Space, Group 1 qualified_name])"
| "patterns TRIGGER = Some (Seqs [Str ''CREATE'', Plus Space, Str ''TRIGGER'', Plus Space,
       Group 1 qualified_name])"
| "patterns GRANT = Some (Seqs [Str ''GRANT'', Plus Space, StarLazy Dot, Plus Space,
       Str ''ON'', Plus Space, Group 1 qualified_name])"
| "patterns COMMENT = Some (Seqs [Str ''COMMENT'', Plus Space, Str ''ON'', Plus Space,
       Group 1 qualified_name])"
| "patterns CTE = None"

text \<open>\<^verbatim>\<open>SQLParser._extract_object_name\<close>\<close>

definition extract_object_name :: "string \<Rightarrow> SQLObjectType \<Rightarrow> string option" where
  "extract_object_name statement obj_type =
     (case patterns obj_type of
        None \<Rightarrow> None
      | Some pattern \<Rightarrow>
          (case re_search flags_I pattern statement of
             None \<Rightarrow> None
           | Some m \<Rightarrow> group m 1))"

subsection \<open>Comments\<close>

text \<open>
  \<^verbatim>\<open>SQLParser._extract_comments\<close>: the stripped lines that start with \<^verbatim>\<open>--\<close>, then
  the matches of \<^verbatim>\<open>/\*.*?\*/\<close>.
\<close>

definition block_comment :: regex where
  "block_comment = Seqs [Cls (Lit CHR ''/''), Cls (Lit CHR ''*''), StarLazy Dot,
     Cls (Lit CHR ''*''), Cls (Lit CHR ''/'')]"

definition extract_comments :: "string \<Rightarrow> string list" where
  "extract_comments statement =
     filter (\<lambda>line. startswith line ''--'') (map strip (split statement [newline]))
     @ re_findall flags_S block_comment statement"

subsection \<open>Views\<close>

text \<open>
  \<^verbatim>\<open>SQLParser._extract_columns\<close>. The loop body is \<open>column_name\<close>: the text before
  \<^verbatim>\<open>' AS '\<close> when the upper-cased item contains \<^verbatim>\<open>' AS '\<close>, the argument of a call in
  place of the call, and the part after the last dot.
\<close>

definition select_clause_pattern :: regex where
  "select_clause_pattern =
     Seqs [Str ''SELECT'', Plus Space, Group 1 (StarLazy Dot), Plus Space, Str ''FROM'']"

definition call_pattern :: regex where
  "call_pattern = Seqs [Star (Not CHR ''(''), Cls (Lit CHR ''(''), Group 1 (Star (Not CHR '')'')),
     Cls (Lit CHR '')''), Star Dot]"

definition column_name :: "string \<Rightarrow> string" where
  "column_name col0 =
     (let col = strip col0;
          col_name = (if contains (upper col) '' AS '' then strip (hd (split col '' AS ''))
                      else strip col);
          col_name = re_sub_group1 flags_none call_pattern col_name
      in last (split col_name ''.''))"

definition extract_columns :: "string \<Rightarrow> string list" where
  "extract_columns select_statement =
     (case re_search flags_IS select_clause_pattern select_statement of
        None \<Rightarrow> []
      | Some select_match \<Rightarrow>
          filter (\<lambda>col_name. col_name \<noteq> [] \<and> upper col_name \<notin> set [''*'', ''DISTINCT''])
            (map column_name (split (group_text select_match 1) '','')))"

text \<open>
  \<^verbatim>\<open>SQLParser._extract_ctes\<close>. The unpacking
  \<^verbatim>\<open>name, definition = cte_part.split(' AS ', 1)\<close> raises \<^verbatim>\<open>ValueError\<close> when the
  split gives one piece, which happens when \<^verbatim>\<open>' AS '\<close> occurs in the upper-cased part
  only.
\<close>

definition with_pattern :: regex where
  "with_pattern =
     Seqs [Str ''WITH'', Plus Space, Group 1 (StarLazy Dot), Plus Space, Str ''SELECT'']"

fun cte_parts :: "string list \<Rightarrow> error + cte list" where
  "cte_parts [] = Inr []"
| "cte_parts (part # parts) =
     (let cte_part = strip part in
      if contains (upper cte_part) '' AS '' then
        (case split1 cte_part '' AS '' of
           [n, d] \<Rightarrow>
             (case cte_parts parts of
                Inl e \<Rightarrow> Inl e
              | Inr rest \<Rightarrow> Inr (\<lparr>cte_name = strip n, cte_definition = strip d\<rparr> # rest))
         | _ \<Rightarrow> Inl ValueError)
      else cte_parts parts)"

definition extract_ctes :: "string \<Rightarrow> error + cte list" where
  "extract_ctes select_statement =
     (case re_search flags_IS with_pattern select_statement of
        None \<Rightarrow> Inr []
      | Some with_match \<Rightarrow> cte_parts (split (group_text with_match 1) '',''))"

text \<open>\<^verbatim>\<open>SQLParser._extract_joins\<close>\<close>

fun Alts :: "regex \<Rightarrow> regex list \<Rightarrow> regex" where
  "Alts r [] = r"
| "Alts r (x # xs) = Alt r (Alts x xs)"

definition join_pattern :: regex where
  "join_pattern =
     Seqs [Group 1 (Alts (Seqs [Str ''LEFT'', Plus Space, Str ''JOIN''])
                     [Seqs [Str ''RIGHT'', Plus Space, Str ''JOIN''],
                      Seqs [Str ''INNER'', Plus Space, Str ''JOIN''],
                      Str ''JOIN'',
                      Seqs [Str ''FULL'', Plus Space, Str ''OUTER'', Plus Space, Str ''JOIN'']]),
           Plus Space, Group 2 qualified_name, Plus Space,
           Opt (Seqs [Str ''ON'', Plus Space, Group 3 (StarLazy Dot)]),
           Look (Seqs [Plus Space,
                   Alts (Seqs [Str ''LEFT'', Plus Space, Str ''JOIN''])
                     [Seqs [Str ''RIGHT'', Plus Space, Str ''JOIN''],
                      Seqs [Str ''INNER'', Plus Space, Str ''JOIN''],
                      Str ''JOIN'',
                      Seqs [Str ''FULL'', Plus Space, Str ''OUTER'', Plus Space, Str ''JOIN''],
                      Str ''WHERE'',
                      Seqs [Str ''GROUP'', Plus Space, Str ''BY''],
                      Seqs [Str ''ORDER'', Plus Space, Str ''BY''],
                      Eos]])]"

definition join_of_match :: "rmatch_obj \<Rightarrow> join_info" where
  "join_of_match m =
     \<lparr>join_type = upper (group_text m 1),
      join_table = group_text m 2,
      join_condition = (case group m 3 of None \<Rightarrow> None
                        | Some c \<Rightarrow> if c \<noteq> [] then Some c else None)\<rparr>"

definition extract_joins :: "string \<Rightarrow> join_info list" where
  "extract_joins select_statement = map join_of_match (re_finditer flags_I join_pattern select_statement)"

text \<open>
  \<^verbatim>\<open>SQLParser._extract_where_clause\<close>, \<^verbatim>\<open>_extract_group_by\<close> and
  \<^verbatim>\<open>_extract_order_by\<close>
\<close>

definition where_pattern :: regex where
  "where_pattern =
     Seqs [Str ''WHERE'', Plus Space, Group 1 (StarLazy Dot),
           Alts (Seqs [Plus Space, Str ''GROUP'', Plus Space, Str ''BY''])
             [Seqs [Plus Space, Str ''ORDER'', Plus Space, Str ''BY''], Eos]]"

definition group_by_pattern :: regex where
  "group_by_pattern =
     Seqs [Str ''GROUP'', Plus Space, Str ''BY'', Plus Space, Group 1 (StarLazy Dot),
           Alts (Seqs [Plus Space, Str ''ORDER'', Plus Space, Str ''BY'']) [Eos]]"

definition order_by_pattern :: regex where
  "order_by_pattern =
     Seqs [Str ''ORDER'', Plus Space, Str ''BY'', Plus Space, Group 1 (StarLazy Dot), Eos]"

definition extract_clause :: "regex \<Rightarrow> string \<Rightarrow> string option" where
  "extract_clause pattern select_statement =
     (case re_search flags_IS pattern select_statement of
        None \<Rightarrow> None
      | Some m \<Rightarrow> Some (strip (group_text m 1)))"

definition extract_where_clause :: "string \<Rightarrow> string option" where
  "extract_where_clause = extract_clause where_pattern"

definition extract_group_by :: "string \<Rightarrow> string option" where
  "extract_group_by = extract_clause group_by_pattern"

definition extract_order_by :: "string \<Rightarrow> string option" where
  "extract_order_by = extract_clause order_by_pattern"

text \<open>\<^verbatim>\<open>SQLParser._create_basic_object\<close>; the first argument is \<^verbatim>\<open>self.current_line\<close>.\<close>

definition create_basic_object ::
  "int \<Rightarrow> string \<Rightarrow> SQLObjectType \<Rightarrow> string \<Rightarrow> string list \<Rightarrow> SQLObject" where
  "create_basic_object cur n obj_type statement cmts =
     \<lparr>name = n, type' = obj_type, definition' = statement,
      start_line = cur, end_line = cur + count_newlines statement,
      comments = cmts, columns = [], joins = [],
      where_clause = None, group_by = None, order_by = None, ctes = [],
      parameters = None, return_type = None, grants = None\<rparr>"

text \<open>\<^verbatim>\<open>SQLParser._parse_view_or_mv\<close>\<close>

definition as_pattern :: regex where
  "as_pattern = Seqs [Str ''AS'', Plus Space, Group 1 (Star Dot)]"

definition parse_view_or_mv ::
  "int \<Rightarrow> string \<Rightarrow> string \<Rightarrow> SQLObjectType \<Rightarrow> string list \<Rightarrow> error + SQLObject" where
  "parse_view_or_mv cur statement n obj_type cmts =
     (case re_search flags_IS as_pattern statement of
        None \<Rightarrow> Inr (create_basic_object cur n obj_type statement cmts)
      | Some select_match \<Rightarrow>
          (let select_statement = strip (group_text select_match 1) in
           case extract_ctes select_statement of
             Inl e \<Rightarrow> Inl e
           | Inr cs \<Rightarrow>
               Inr \<lparr>name = n, type' = obj_type, definition' = statement,
                    start_line = cur, end_line = cur + count_newlines statement,
                    comments = cmts,
                    columns = extract_columns select_statement,
                    joins = extract_joins select_statement,
                    where_clause = extract_where_clause select_statement,
                    group_by = extract_group_by select_statement,
                    order_by = extract_order_by select_statement,
                    ctes = cs,
                    parameters = None, return_type = None, grants = None\<rparr>))"

subsection \<open>Functions\<close>

text \<open>\<^verbatim>\<open>SQLParser._parse_function\<close>\<close>

definition params_pattern :: regex where
  "params_pattern =
     Seqs [Str ''FUNCTION'', Plus Space, Plus Word, Opt (Seq (Cls (Lit CHR ''.'')) (Plus Word)),
           Star Space, Cls (Lit CHR ''(''), Group 1 (StarLazy Dot), Cls (Lit CHR '')'')]"

definition returns_pattern :: regex where
  "returns_pattern =
     Seqs [Str ''RETURNS'', Plus Space,
           Group 1 (Seq (Plus Word)
                      (Opt (Seqs [Cls (Lit CHR ''(''), Star (Not CHR '')''), Cls (Lit CHR '')'')])))]"

definition parse_function :: "int \<Rightarrow> string \<Rightarrow> string \<Rightarrow> string list \<Rightarrow> SQLObject" where
  "parse_function cur statement n cmts =
     \<lparr>name = n, type' = FUNCTION, definition' = statement,
      start_line = cur, end_line = cur + count_newlines statement,
      comments = cmts, columns = [], joins = [],
      where_clause = None, group_by = None, order_by = None, ctes = [],
      parameters =
        Some (case re_search flags_IS params_pattern statement of
                None \<Rightarrow> []
              | Some params_match \<Rightarrow>
                  filter (\<lambda>p. p \<noteq> []) (map strip (split (group_text params_match 1) '',''))),
      return_type =
        (case re_search flags_I returns_pattern statement of
           None \<Rightarrow> None
         | Some return_type_match \<Rightarrow> group return_type_match 1),
      grants = None\<rparr>"

subsection \<open>Tables\<close>

text \<open>
  \<^verbatim>\<open>SQLParser._extract_table_columns\<close>. The name of a column is
  \<^verbatim>\<open>col_def.split()[0]\<close>, which raises \<^verbatim>\<open>IndexError\<close> on an empty list of words.
\<close>

definition columns_pattern :: regex where
  "columns_pattern =
     Seqs [Cls (Lit CHR ''(''), Star Space, Group 1 (StarLazy Dot), Star Space, Cls (Lit CHR '')'')]"

definition is_constraint :: "string \<Rightarrow> bool" where
  "is_constraint col_def =
     (let u = upper col_def in
      startswith u ''PRIMARY KEY'' \<or> startswith u ''FOREIGN KEY'' \<or> startswith u ''UNIQUE''
      \<or> startswith u ''CHECK'')"

fun table_column_names :: "string list \<Rightarrow> error + string list" where
  "table_column_names [] = Inr []"
| "table_column_names (c # cs) =
     (let col_def = strip c in
      if col_def \<noteq> [] \<and> \<not> is_constraint col_def then
        (case split_ws col_def of
           [] \<Rightarrow> Inl IndexError
         | col_name # ws \<Rightarrow>
             (case table_column_names cs of
                Inl e \<Rightarrow> Inl e
              | Inr rest \<Rightarrow> Inr (col_name # rest)))
      else table_column_names cs)"

definition extract_table_columns :: "string \<Rightarrow> error + string list" where
  "extract_table_columns table_statement =
     (case re_search flags_S columns_pattern table_statement of
        None \<Rightarrow> Inr []
      | Some columns_match \<Rightarrow> table_column_names (split (group_text columns_match 1) '',''))"

text \<open>\<^verbatim>\<open>SQLParser._parse_table\<close>\<close>

definition parse_table :: "int \<Rightarrow> string \<Rightarrow> string \<Rightarrow> string list \<Rightarrow> error + SQLObject" where
  "parse_table cur statement n cmts =
     (case extract_table_columns statement of
        Inl e \<Rightarrow> Inl e
      | Inr cols \<Rightarrow>
          Inr \<lparr>name = n, type' = TABLE, definition' = statement,
               start_line = cur, end_line = cur + count_newlines statement,
               comments = cmts, columns = cols, joins = [],
               where_clause = None, group_by = None, order_by = None, ctes = [],
               parameters = None, return_type = None, grants = None\<rparr>)"

subsection \<open>Statements\<close>

text \<open>
  The state of a \<^verbatim>\<open>SQLParser\<close>: the objects found so far and the line counter.
\<close>

record parser =
  objects :: "SQLObject list"
  current_line :: int

text \<open>
  The branch of \<^verbatim>\<open>SQLParser._parse_statement\<close> on the type of the object, with
  \<^verbatim>\<open>_parse_index\<close>, \<^verbatim>\<open>_parse_trigger\<close> and \<^verbatim>\<open>_parse_grant\<close> written out; the last
  branch builds the object of a \<^verbatim>\<open>COMMENT\<close> statement.
\<close>

fun parse_object ::
  "int \<Rightarrow> string \<Rightarrow> string \<Rightarrow> SQLObjectType \<Rightarrow> string list \<Rightarrow> error + SQLObject" where
  "parse_object cur statement_str n VIEW cmts = parse_view_or_mv cur statement_str n VIEW cmts"
| "parse_object cur statement_str n MATERIALIZED_VIEW cmts =
     parse_view_or_mv cur statement_str n MATERIALIZED_VIEW cmts"
| "parse_object cur statement_str n FUNCTION cmts = Inr (parse_function cur statement_str n cmts)"
| "parse_object cur statement_str n TABLE cmts = parse_table cur statement_str n cmts"
| "parse_object cur statement_str n INDEX cmts =
     Inr (create_basic_object cur n INDEX statement_str cmts)"
| "parse_object cur statement_str n TRIGGER cmts =
     Inr (create_basic_object cur n TRIGGER statement_str cmts)"
| "parse_object cur statement_str n GRANT cmts =
     Inr (create_basic_object cur n GRANT statement_str cmts)"
| "parse_object cur statement_str n obj_type cmts =
     Inr \<lparr>name = n, type' = obj_type, definition' = statement_str,
          start_line = cur, end_line = cur + count_newlines statement_str,
          comments = cmts, columns = [], joins = [],
          where_clause = None, group_by = None, order_by = None, ctes = [],
          parameters = None, return_type = None, grants = None\<rparr>"

text \<open>
  \<^verbatim>\<open>SQLParser._parse_statement\<close>. The argument is \<^verbatim>\<open>str(statement)\<close>. A statement
  that is empty once stripped, that has no type or whose name is \<^verbatim>\<open>None\<close> or empty
  adds no object.
\<close>

definition parse_statement :: "parser \<Rightarrow> string \<Rightarrow> error + parser" where
  "parse_statement self statement =
     (let statement_str = strip statement in
      if statement_str = [] then Inr self
      else
        let self1 = self\<lparr>current_line := current_line self + (count_newlines statement_str + 1)\<rparr> in
        case get_object_type statement_str of
          None \<Rightarrow> Inr self1
        | Some obj_type \<Rightarrow>
            (case extract_object_name statement_str obj_type of
               None \<Rightarrow> Inr self1
             | Some n \<Rightarrow>
                 if n = [] then Inr self1
                 else
                   (case parse_object (current_line self1) statement_str n obj_type
                           (extract_comments statement_str) of
                      Inl e \<Rightarrow> Inl e
                    | Inr obj \<Rightarrow> Inr (self1\<lparr>objects := objects self1 @ [obj]\<rparr>))))"

text \<open>
  \<^verbatim>\<open>SQLParser.parse_file\<close>, from the statements on. Reading the file and splitting its
  text into statements is the work of \<^verbatim>\<open>open\<close> and of \<^verbatim>\<open>sqlparse.parse\<close>; the
  argument here is the list of the texts \<^verbatim>\<open>str(statement)\<close> of the statements that
  \<^verbatim>\<open>sqlparse.parse\<close> returns. An exception ends the loop.
\<close>

fun parse_statements :: "parser \<Rightarrow> string list \<Rightarrow> error + parser" where
  "parse_statements self [] = Inr self"
| "parse_statements self (statement # statements) =
     (case parse_statement self statement of
        Inl e \<Rightarrow> Inl e
      | Inr self' \<Rightarrow> parse_statements self' statements)"

definition parse_file :: "string list \<Rightarrow> error + SQLObject list" where
  "parse_file parsed =
     (case parse_statements \<lparr>objects = [], current_line = 0\<rparr> parsed of
        Inl e \<Rightarrow> Inl e
      | Inr self \<Rightarrow> Inr (objects self))"

section \<open>The comparator\<close>

text \<open>
  The dataclass \<^verbatim>\<open>ComparisonResult\<close>. The two percentages are Python floats; they are
  modelled as real numbers.
\<close>

record ComparisonResult =
  object_name :: string
  object_type :: SQLObjectType
  status :: string
  completeness_percentage :: real
  accuracy_percentage :: real
  differences :: "string list"
  missing_components :: "string list"
  extra_components :: "string list"
  line_by_line_diff :: "string list"

text \<open>
  The dictionary \<^verbatim>\<open>{'differences': .., 'missing': .., 'extra': ..}\<close> that each
  comparison pass returns.
\<close>

record comparison =
  cmp_differences :: "string list"
  cmp_missing :: "string list"
  cmp_extra :: "string list"

text \<open>
  The two functions of \<^verbatim>\<open>difflib\<close> that the comparator calls are parameters of the
  model: \<open>ratio a b\<close> stands for \<^verbatim>\<open>difflib.SequenceMatcher(None, a, b).ratio()\<close> and
  \<open>unified_diff a b\<close> for
  \<^verbatim>\<open>list(difflib.unified_diff(a, b, fromfile='source', tofile='docker', lineterm=''))\<close>.
\<close>

record difflib =
  ratio :: "string \<Rightarrow> string \<Rightarrow> real"
  unified_diff :: "string list \<Rightarrow> string list \<Rightarrow> string list"

text \<open>
  A Python \<^verbatim>\<open>set\<close> is modelled as a list without duplicates. Python does not specify
  the order in which a set of strings is iterated; the model iterates in the order of
  \<^const>\<open>remdups\<close>. \<open>set_diff a b\<close> is \<^verbatim>\<open>set(a) - set(b)\<close> and \<open>set_inter a b\<close> is
  \<^verbatim>\<open>set(a) & set(b)\<close>.
\<close>

definition set_diff :: "'a list \<Rightarrow> 'a list \<Rightarrow> 'a list" where
  "set_diff a b = filter (\<lambda>x. x \<notin> set b) (remdups a)"

definition set_inter :: "'a list \<Rightarrow> 'a list \<Rightarrow> 'a list" where
  "set_inter a b = filter (\<lambda>x. x \<in> set b) (remdups a)"

definition apostrophe :: char where
  "apostrophe = CHR 0x27"

text \<open>How an f-string prints an optional string.\<close>

definition str_opt :: "string option \<Rightarrow> string" where
  "str_opt x = (case x of None \<Rightarrow> ''None'' | Some t \<Rightarrow> t)"

text \<open>\<^verbatim>\<open>SQLComparator._compare_columns\<close>\<close>

definition compare_columns :: "string list \<Rightarrow> string list \<Rightarrow> comparison" where
  "compare_columns source_cols docker_cols =
     (let missing_cols = set_diff source_cols docker_cols;
          extra_cols = set_diff docker_cols source_cols
      in \<lparr>cmp_differences =
             (if missing_cols \<noteq> [] then [''Missing columns: '' @ join '', '' missing_cols] else [])
             @ (if extra_cols \<noteq> [] then [''Extra columns: '' @ join '', '' extra_cols] else [])
             @ (if source_cols \<noteq> docker_cols \<and> missing_cols = [] \<and> extra_cols = []
                then [''Column order differs''] else []),
          cmp_missing = map (\<lambda>col. ''Missing column: '' @ col) missing_cols,
          cmp_extra = map (\<lambda>col. ''Extra column: '' @ col) extra_cols\<rparr>)"

text \<open>
  \<^verbatim>\<open>SQLComparator._compare_ctes\<close>. \<^verbatim>\<open>next(cte for cte in .. if ..)\<close> is the first CTE
  of that name; a common name has one on each side.
\<close>

definition cte_definition_differs :: "cte list \<Rightarrow> cte list \<Rightarrow> string \<Rightarrow> string list" where
  "cte_definition_differs source_ctes docker_ctes n =
     (case (find (\<lambda>c. cte_name c = n) source_ctes, find (\<lambda>c. cte_name c = n) docker_ctes) of
        (Some source_cte, Some docker_cte) \<Rightarrow>
          if cte_definition source_cte \<noteq> cte_definition docker_cte
          then [''CTE '' @ [apostrophe] @ n @ [apostrophe] @ '' definition differs'']
          else []
      | _ \<Rightarrow> [])"

definition compare_ctes :: "cte list \<Rightarrow> cte list \<Rightarrow> comparison" where
  "compare_ctes source_ctes docker_ctes =
     (let source_names = map cte_name source_ctes;
          docker_names = map cte_name docker_ctes;
          missing_ctes = set_diff source_names docker_names;
          extra_ctes = set_diff docker_names source_names;
          common_ctes = set_inter source_names docker_names
      in \<lparr>cmp_differences =
             (if missing_ctes \<noteq> [] then [''Missing CTEs: '' @ join '', '' missing_ctes] else [])
             @ (if extra_ctes \<noteq> [] then [''Extra CTEs: '' @ join '', '' extra_ctes] else [])
             @ concat (map (cte_definition_differs source_ctes docker_ctes) common_ctes),
          cmp_missing = map (\<lambda>c. ''Missing CTE: '' @ c) missing_ctes,
          cmp_extra = map (\<lambda>c. ''Extra CTE: '' @ c) extra_ctes\<rparr>)"

text \<open>
  \<^verbatim>\<open>SQLComparator._compare_joins\<close>. The comparable representation of a join is the
  f-string \<^verbatim>\<open>"{type} {table} ON {condition}"\<close>.
\<close>

definition join_str :: "join_info \<Rightarrow> string" where
  "join_str j = join_type j @ '' '' @ join_table j @ '' ON '' @ str_opt (join_condition j)"

definition compare_joins :: "join_info list \<Rightarrow> join_info list \<Rightarrow> comparison" where
  "compare_joins source_joins docker_joins =
     (let source_join_strs = map join_str source_joins;
          docker_join_strs = map join_str docker_joins;
          missing_joins = set_diff source_join_strs docker_join_strs;
          extra_joins = set_diff docker_join_strs source_join_strs
      in \<lparr>cmp_differences =
             (if missing_joins \<noteq> [] then [''Missing JOINs: '' @ str_nat (length missing_joins)] else [])
             @ (if extra_joins \<noteq> [] then [''Extra JOINs: '' @ str_nat (length extra_joins)] else []),
          cmp_missing = map (\<lambda>j. ''Missing JOIN: '' @ j) missing_joins,
          cmp_extra = map (\<lambda>j. ''Extra JOIN: '' @ j) extra_joins\<rparr>)"

text \<open>\<^verbatim>\<open>SQLComparator._compare_clauses\<close>\<close>

definition compare_clauses :: "string option \<Rightarrow> string option \<Rightarrow> string \<Rightarrow> comparison" where
  "compare_clauses source_clause docker_clause clause_type =
     \<lparr>cmp_differences =
        (if source_clause \<noteq> docker_clause then
           (if source_clause = None then [''Missing '' @ clause_type @ '' clause in Docker'']
            else if docker_clause = None then [''Missing '' @ clause_type @ '' clause in source'']
            else [clause_type @ '' clause differs''])
         else []),
      cmp_missing = [], cmp_extra = []\<rparr>"

text \<open>\<^verbatim>\<open>SQLComparator._compare_comments\<close>\<close>

definition compare_comments :: "string list \<Rightarrow> string list \<Rightarrow> comparison" where
  "compare_comments source_comments docker_comments =
     (let missing_comments = set_diff source_comments docker_comments;
          extra_comments = set_diff docker_comments source_comments
      in \<lparr>cmp_differences =
             (if missing_comments \<noteq> []
              then [''Missing comments: '' @ str_nat (length missing_comments)] else [])
             @ (if extra_comments \<noteq> []
                then [''Extra comments: '' @ str_nat (length extra_comments)] else []),
          cmp_missing = [], cmp_extra = []\<rparr>)"

text \<open>\<^verbatim>\<open>SQLComparator._compare_functions\<close>\<close>

definition compare_functions :: "SQLObject \<Rightarrow> SQLObject \<Rightarrow> comparison" where
  "compare_functions source_func docker_func =
     \<lparr>cmp_differences =
        (if parameters source_func \<noteq> parameters docker_func
         then [''Function parameters differ''] else [])
        @ (if return_type source_func \<noteq> return_type docker_func
           then [''Return type differs: source='' @ str_opt (return_type source_func)
                 @ '', docker='' @ str_opt (return_type docker_func)]
           else []),
      cmp_missing = [], cmp_extra = []\<rparr>"

text \<open>\<^verbatim>\<open>SQLComparator._generate_line_diff\<close>\<close>

definition generate_line_diff :: "difflib \<Rightarrow> string \<Rightarrow> string \<Rightarrow> string list" where
  "generate_line_diff lib source_def docker_def =
     unified_diff lib (splitlines source_def) (splitlines docker_def)"

text \<open>
  \<^verbatim>\<open>SQLComparator._calculate_completeness\<close>. The total counts the elements of the
  source's lists, the matching count the elements of intersections of sets; a clause
  counts when it is neither \<^verbatim>\<open>None\<close> nor empty.
\<close>

definition join_key :: "join_info \<Rightarrow> string" where
  "join_key j = join_type j @ '' '' @ join_table j"

definition clause_total :: "string option \<Rightarrow> nat" where
  "clause_total source_clause =
     (case source_clause of None \<Rightarrow> 0 | Some c \<Rightarrow> if c \<noteq> [] then 1 else 0)"

definition clause_matching :: "string option \<Rightarrow> string option \<Rightarrow> nat" where
  "clause_matching source_clause docker_clause =
     (case source_clause of
        None \<Rightarrow> 0
      | Some c \<Rightarrow> if c \<noteq> [] \<and> source_clause = docker_clause then 1 else 0)"

definition total_components :: "SQLObject \<Rightarrow> nat" where
  "total_components source_obj =
     length (columns source_obj) + length (ctes source_obj) + length (joins source_obj)
     + clause_total (where_clause source_obj) + clause_total (group_by source_obj)
     + clause_total (order_by source_obj)"

definition matching_components :: "SQLObject \<Rightarrow> SQLObject \<Rightarrow> nat" where
  "matching_components source_obj docker_obj =
     length (set_inter (columns source_obj) (columns docker_obj))
     + length (set_inter (map cte_name (ctes source_obj)) (map cte_name (ctes docker_obj)))
     + length (set_inter (map join_key (joins source_obj)) (map join_key (joins docker_obj)))
     + clause_matching (where_clause source_obj) (where_clause docker_obj)
     + clause_matching (group_by source_obj) (group_by docker_obj)
     + clause_matching (order_by source_obj) (order_by docker_obj)"

definition calculate_completeness :: "SQLObject \<Rightarrow> SQLObject \<Rightarrow> real" where
  "calculate_completeness source_obj docker_obj =
     (if total_components source_obj = 0 then 100
      else real (matching_components source_obj docker_obj) / real (total_components source_obj) * 100)"

text \<open>\<^verbatim>\<open>SQLComparator._calculate_accuracy\<close>\<close>

definition calculate_accuracy :: "difflib \<Rightarrow> SQLObject \<Rightarrow> SQLObject \<Rightarrow> real" where
  "calculate_accuracy lib source_obj docker_obj =
     (let source_normalized = join '' '' (split_ws (definition' source_obj));
          docker_normalized = join '' '' (split_ws (definition' docker_obj))
      in ratio lib source_normalized docker_normalized * 100)"

text \<open>\<^verbatim>\<open>SQLComparator._compare_objects\<close>\<close>

definition compare_objects :: "difflib \<Rightarrow> SQLObject \<Rightarrow> SQLObject \<Rightarrow> ComparisonResult" where
  "compare_objects lib source_obj docker_obj =
     (let column_comparison = compare_columns (columns source_obj) (columns docker_obj);
          cte_comparison = compare_ctes (ctes source_obj) (ctes docker_obj);
          join_comparison = compare_joins (joins source_obj) (joins docker_obj);
          where_comparison =
            compare_clauses (where_clause source_obj) (where_clause docker_obj) ''WHERE'';
          group_by_comparison =
            compare_clauses (group_by source_obj) (group_by docker_obj) ''GROUP BY'';
          order_by_comparison =
            compare_clauses (order_by source_obj) (order_by docker_obj) ''ORDER BY'';
          comment_comparison = compare_comments (comments source_obj) (comments docker_obj);
          func_comparison =
            (if type' source_obj = FUNCTION then compare_functions source_obj docker_obj
             else \<lparr>cmp_differences = [], cmp_missing = [], cmp_extra = []\<rparr>);
          diffs =
            (if type' source_obj \<noteq> type' docker_obj
             then [''Type mismatch: source='' @ type_value (type' source_obj)
                   @ '', docker='' @ type_value (type' docker_obj)]
             else [])
            @ cmp_differences column_comparison
            @ cmp_differences cte_comparison
            @ cmp_differences join_comparison
            @ cmp_differences where_comparison
            @ cmp_differences group_by_comparison
            @ cmp_differences order_by_comparison
            @ cmp_differences comment_comparison
            @ cmp_differences func_comparison
      in \<lparr>object_name = name source_obj,
          object_type = type' source_obj,
          status = (if diffs = [] then ''MATCH'' else ''DIFFERENT''),
          completeness_percentage = calculate_completeness source_obj docker_obj,
          accuracy_percentage = calculate_accuracy lib source_obj docker_obj,
          differences = diffs,
          missing_components =
            cmp_missing column_comparison @ cmp_missing cte_comparison
            @ cmp_missing join_comparison @ cmp_missing func_comparison,
          extra_components =
            cmp_extra column_comparison @ cmp_extra cte_comparison
            @ cmp_extra join_comparison @ cmp_extra func_comparison,
          line_by_line_diff =
            generate_line_diff lib (definition' source_obj) (definition' docker_obj)\<rparr>)"

text \<open>
  The dictionary comprehension \<^verbatim>\<open>{obj.name: obj for obj in objs}\<close>: a Python
  dictionary keeps a key at the place of its first insertion and the value of its last,
  which is what \<^const>\<open>AList.update\<close> does on an association list.
\<close>

definition lookup_of :: "SQLObject list \<Rightarrow> (string \<times> SQLObject) list" where
  "lookup_of objs = foldl (\<lambda>d obj. AList.update (name obj) obj d) [] objs"

text \<open>
  The body of the loop of \<^verbatim>\<open>SQLComparator.compare_files\<close> for one name. An object
  is always true in Python, so the tests are tests against \<^verbatim>\<open>None\<close>. With no object
  on either side the last branch would read \<^verbatim>\<open>docker_obj.type\<close> of \<^verbatim>\<open>None\<close>.
\<close>

definition compare_name ::
  "difflib \<Rightarrow> string \<Rightarrow> SQLObject option \<Rightarrow> SQLObject option \<Rightarrow> error + ComparisonResult" where
  "compare_name lib n source_obj docker_obj =
     (case (source_obj, docker_obj) of
        (Some s, Some d) \<Rightarrow> Inr (compare_objects lib s d)
      | (Some s, None) \<Rightarrow>
          Inr \<lparr>object_name = n, object_type = type' s, status = ''MISSING'',
               completeness_percentage = 0, accuracy_percentage = 0,
               differences = [''Object '' @ [apostrophe] @ n @ [apostrophe]
                              @ '' exists in source but missing in Docker''],
               missing_components = [], extra_components = [], line_by_line_diff = []\<rparr>
      | (None, Some d) \<Rightarrow>
          Inr \<lparr>object_name = n, object_type = type' d, status = ''EXTRA'',
               completeness_percentage = 0, accuracy_percentage = 0,
               differences = [''Object '' @ [apostrophe] @ n @ [apostrophe]
                              @ '' exists in Docker but not in source''],
               missing_components = [], extra_components = [], line_by_line_diff = []\<rparr>
      | (None, None) \<Rightarrow> Inl AttributeError)"

text \<open>
  \<^verbatim>\<open>SQLComparator.compare_files\<close>. The names are the union of the keys of the two
  dictionaries, a set, iterated here in the order of \<^const>\<open>remdups\<close>.
\<close>

fun compare_names ::
  "difflib \<Rightarrow> (string \<times> SQLObject) list \<Rightarrow> (string \<times> SQLObject) list \<Rightarrow> string list
   \<Rightarrow> error + ComparisonResult list" where
  "compare_names lib source_lookup docker_lookup [] = Inr []"
| "compare_names lib source_lookup docker_lookup (n # ns) =
     (case compare_name lib n (map_of source_lookup n) (map_of docker_lookup n) of
        Inl e \<Rightarrow> Inl e
      | Inr result \<Rightarrow>
          (case compare_names lib source_lookup docker_lookup ns of
             Inl e \<Rightarrow> Inl e
           | Inr results \<Rightarrow> Inr (result # results)))"

definition all_names :: "(string \<times> SQLObject) list \<Rightarrow> (string \<times> SQLObject) list \<Rightarrow> string list" where
  "all_names source_lookup docker_lookup =
     remdups (map fst source_lookup @ map fst docker_lookup)"

definition compare_files ::
  "difflib \<Rightarrow> SQLObject list \<Rightarrow> SQLObject list \<Rightarrow> error + ComparisonResult list" where
  "compare_files lib source_objects docker_objects =
     (let source_lookup = lookup_of source_objects;
          docker_lookup = lookup_of docker_objects
      in compare_names lib source_lookup docker_lookup (all_names source_lookup docker_lookup))"

section \<open>Properties of the string functions\<close>

text \<open>
  \<^verbatim>\<open>split\<close> with a separator returns at least one piece, so the \<^verbatim>\<open>[0]\<close> and
  \<^verbatim>\<open>[-1]\<close> that the parser takes of its result exist.
\<close>

lemma split_acc_nonempty: "split_acc sep acc s \<noteq> []"
  by (induction sep acc s rule: split_acc.induct) auto

lemma split_nonempty: "split s sep \<noteq> []"
  by (simp add: split_def split_acc_nonempty)

text \<open>
  A stripped string that is not empty has a character that is not white space, so
  \<^verbatim>\<open>split()\<close> returns at least one word for it.
\<close>

lemma split_ws_acc_nonempty:
  assumes "acc \<noteq> [] \<or> (\<exists>x\<in>set s. \<not> isspace x)"
  shows "split_ws_acc acc s \<noteq> []"
  using assms by (induction s arbitrary: acc) auto

lemma strip_has_word:
  assumes "strip s \<noteq> []"
  shows "\<exists>x\<in>set (strip s). \<not> isspace x"
proof -
  let ?d = "dropWhile isspace (rev (dropWhile isspace s))"
  from assms have d: "?d \<noteq> []"
    by (simp add: strip_def)
  then have "\<not> isspace (hd ?d)"
    by (rule hd_dropWhile)
  moreover from d have "hd ?d \<in> set ?d"
    by simp
  ultimately show ?thesis
    by (auto simp: strip_def)
qed

lemma upper_char_C_not_space: "upper_char c = CHR ''C'' \<Longrightarrow> \<not> isspace c"
  by (auto simp: isspace_def upper_char_def lowercase_def uppercase_def)

lemma upper_char_W_not_space: "upper_char c = CHR ''W'' \<Longrightarrow> \<not> isspace c"
  by (auto simp: isspace_def upper_char_def lowercase_def uppercase_def)

text \<open>
  Stripping keeps a prefix that starts and ends with a character that is not white
  space.
\<close>

lemma strip_keeps_prefix:
  assumes "p \<noteq> []" and "\<not> isspace (hd p)" and "\<not> isspace (last p)"
  shows "\<exists>t'. strip (p @ t) = p @ t'"
proof -
  from assms(1,2) have a: "dropWhile isspace (p @ t) = p @ t"
    by (cases p) auto
  from assms(1,3) have b: "dropWhile isspace (rev p) = rev p"
    by (cases p rule: rev_cases) auto
  show ?thesis
  proof (cases "\<forall>x\<in>set t. isspace x")
    case True
    then have "dropWhile isspace (rev t @ rev p) = rev p"
      using b by (simp add: dropWhile_append)
    then have "strip (p @ t) = p @ []"
      by (simp add: strip_def a)
    then show ?thesis ..
  next
    case False
    then have "dropWhile isspace (rev t @ rev p) = dropWhile isspace (rev t) @ rev p"
      by (auto simp: dropWhile_append)
    then have "strip (p @ t) = p @ rev (dropWhile isspace (rev t))"
      by (simp add: strip_def a)
    then show ?thesis ..
  qed
qed

lemma strip_id:
  assumes "s \<noteq> []" and "\<not> isspace (hd s)" and "\<not> isspace (last s)"
  shows "strip s = s"
proof -
  from assms(1,2) have "dropWhile isspace s = s"
    by (cases s) auto
  moreover from assms(1,3) have "dropWhile isspace (rev s) = rev s"
    by (cases s rule: rev_cases) auto
  ultimately show ?thesis
    by (simp add: strip_def)
qed

section \<open>Properties of the matcher\<close>

text \<open>
  A greedy repetition over a run of characters of the class, followed by a character
  outside of the class, hands the rest to the continuation, provided that the
  continuation succeeds there: no backtracking into the run takes place.
\<close>

lemma star_greedy_run:
  assumes "\<forall>c\<in>set xs. p c" and "\<not> p y" and "k (y # ys) \<noteq> None"
  shows "star_greedy p (xs @ y # ys) k = k (y # ys)"
  using assms by (induction xs) auto

lemma not_isword_space: "\<not> isword CHR '' ''"
  by (simp add: isword_def lowercase_def uppercase_def digits_def)

lemma isword_not_isspace: "isword c \<Longrightarrow> \<not> isspace c"
  by (auto simp: isword_def isspace_def lowercase_def uppercase_def digits_def)

text \<open>
  The name pattern on a word that a space follows: the word is the name.
\<close>

lemma rmatch_qualified_name_space:
  assumes "isword c" and "\<forall>c\<in>set cs. isword c"
    and "k (CHR '' '' # ys) g \<noteq> None"
  shows "rmatch f qualified_name (c # cs @ CHR '' '' # ys) g k = k (CHR '' '' # ys) g"
proof -
  let ?k = "\<lambda>s'. rmatch f (Opt (Seq (Cls (Lit CHR ''.'')) (Plus Word))) s' g k"
  have dot: "\<not> cmatch f (Lit CHR ''.'') CHR '' ''"
    by (simp add: upper_char_def lowercase_def uppercase_def)
  have k: "?k (CHR '' '' # ys) = k (CHR '' '' # ys) g"
    using dot by (simp add: Plus_def)
  have "rmatch f qualified_name (c # cs @ CHR '' '' # ys) g k
        = star_greedy (cmatch f Word) (cs @ CHR '' '' # ys) ?k"
    using assms(1) by (simp add: qualified_name_def Plus_def)
  also have "\<dots> = ?k (CHR '' '' # ys)"
    using assms(2,3) k by (intro star_greedy_run) (auto simp: not_isword_space)
  finally show ?thesis using k by simp
qed

section \<open>Properties of the parser\<close>

subsection \<open>Classification\<close>

lemma get_object_type_create_view:
  assumes "startswith (upper s) ''CREATE VIEW''"
  shows "get_object_type s = None"
proof -
  from assms obtain t where "upper s = ''CREATE VIEW'' @ t"
    by (auto simp: startswith_def prefix_def)
  then show ?thesis
    by (simp add: get_object_type_def startswith_def)
qed

lemma strip_create_view:
  assumes "startswith (upper s) ''CREATE VIEW ''"
  shows "startswith (upper (strip s)) ''CREATE VIEW''"
proof -
  from assms obtain u where u: "map upper_char s = ''CREATE VIEW '' @ u"
    by (auto simp: startswith_def prefix_def upper_def)
  then obtain c1 c2 c3 c4 c5 c6 c7 c8 c9 c10 c11 t where
    s: "s = [c1, c2, c3, c4, c5, c6, c7, c8, c9, c10, c11] @ t" and
    c: "upper_char c1 = CHR ''C''" "upper_char c11 = CHR ''W''" and
    p: "map upper_char [c1, c2, c3, c4, c5, c6, c7, c8, c9, c10, c11] = ''CREATE VIEW''"
    by (auto simp: map_eq_Cons_conv)
  have "\<exists>t'. strip ([c1, c2, c3, c4, c5, c6, c7, c8, c9, c10, c11] @ t)
          = [c1, c2, c3, c4, c5, c6, c7, c8, c9, c10, c11] @ t'"
    using c by (intro strip_keeps_prefix) (simp_all add: upper_char_C_not_space upper_char_W_not_space)
  then obtain t' where "strip s = [c1, c2, c3, c4, c5, c6, c7, c8, c9, c10, c11] @ t'"
    unfolding s ..
  then have "upper (strip s) = ''CREATE VIEW'' @ upper t'"
    using p by (simp add: upper_def)
  then show ?thesis
    by (simp add: startswith_def)
qed

lemma get_object_type_create_unique_index:
  assumes "startswith (upper s) ''CREATE UNIQUE INDEX''"
  shows "get_object_type s = None"
proof -
  from assms obtain t where "upper s = ''CREATE UNIQUE INDEX'' @ t"
    by (auto simp: startswith_def prefix_def)
  then show ?thesis
    by (simp add: get_object_type_def startswith_def)
qed

lemma parse_statement_no_type:
  assumes "get_object_type (strip s) = None"
  shows "\<exists>self'. parse_statement self s = Inr self' \<and> objects self' = objects self"
  using assms by (simp add: parse_statement_def Let_def)

subsection \<open>Names\<close>

lemma extract_object_name_create_view:
  assumes "kw \<noteq> []" and "\<forall>c\<in>set kw. isword c"
  shows "extract_object_name (''CREATE VIEW '' @ kw @ '' '' @ rest) VIEW = Some kw"
proof -
  from assms(1) obtain c cs where kw: "kw = c # cs"
    by (cases kw) auto
  with assms(2) have c: "isword c" "\<not> isspace c" and cs: "\<forall>c\<in>set cs. isword c"
    by (auto simp: isword_not_isspace)
  show ?thesis
    using c cs
    by (simp add: kw extract_object_name_def re_search_def match_at_def group_def flags_I_def
        Plus_def isspace_def upper_char_def lowercase_def uppercase_def
        rmatch_qualified_name_space)
qed

lemma extract_object_name_comment:
  assumes "kw \<noteq> []" and "\<forall>c\<in>set kw. isword c"
  shows "extract_object_name (''COMMENT ON '' @ kw @ '' '' @ rest) COMMENT = Some kw"
proof -
  from assms(1) obtain c cs where kw: "kw = c # cs"
    by (cases kw) auto
  with assms(2) have c: "isword c" "\<not> isspace c" and cs: "\<forall>c\<in>set cs. isword c"
    by (auto simp: isword_not_isspace)
  show ?thesis
    using c cs
    by (simp add: kw extract_object_name_def re_search_def match_at_def group_def flags_I_def
        Plus_def isspace_def rmatch_qualified_name_space)
qed

lemma get_object_type_comment_on: "get_object_type (''COMMENT ON '' @ rest) = Some COMMENT"
  by (simp add: get_object_type_def startswith_def upper_def upper_char_def lowercase_def
      uppercase_def)

lemma get_object_type_not_CTE: "get_object_type s \<noteq> Some CTE"
  by (simp add: get_object_type_def Let_def)

subsection \<open>Statements\<close>

text \<open>The \<^verbatim>\<open>IndexError\<close> of \<^verbatim>\<open>col_def.split()[0]\<close> does not arise.\<close>

lemma table_column_names_no_error: "\<exists>cols. table_column_names cs = Inr cols"
proof (induction cs)
  case Nil
  show ?case by simp
next
  case (Cons c cs)
  then obtain cols where cols: "table_column_names cs = Inr cols" ..
  show ?case
  proof (cases "strip c \<noteq> [] \<and> \<not> is_constraint (strip c)")
    case True
    then have "\<exists>x\<in>set (strip c). \<not> isspace x"
      by (intro strip_has_word) simp
    then have "split_ws (strip c) \<noteq> []"
      unfolding split_ws_def by (intro split_ws_acc_nonempty) simp
    then obtain w ws where "split_ws (strip c) = w # ws"
      by (cases "split_ws (strip c)") auto
    with True cols show ?thesis by (simp add: Let_def)
  next
    case False
    with cols show ?thesis by (auto simp: Let_def)
  qed
qed

lemma parse_object_name_type:
  assumes "parse_object cur statement_str n obj_type cmts = Inr obj"
  shows "name obj = n \<and> type' obj = obj_type \<and> definition' obj = statement_str"
  using assms
  by (cases obj_type)
    (auto simp: parse_view_or_mv_def parse_function_def parse_table_def create_basic_object_def
      Let_def split: option.splits sum.splits)

text \<open>
  A statement adds no object or one object, and an added object records the type that
  the classifier found, the non-empty name that the name pattern captured and the
  stripped text.
\<close>

lemma parse_statement_objects:
  assumes "parse_statement self statement = Inr self'"
  shows "objects self' = objects self
     \<or> (\<exists>obj. objects self' = objects self @ [obj]
           \<and> name obj \<noteq> [] \<and> type' obj \<noteq> CTE
           \<and> get_object_type (strip statement) = Some (type' obj)
           \<and> extract_object_name (strip statement) (type' obj) = Some (name obj)
           \<and> definition' obj = strip statement)"
  using assms get_object_type_not_CTE [of "strip statement"]
  unfolding parse_statement_def Let_def
  by (auto split: if_splits option.splits sum.splits dest!: parse_object_name_type)

lemma parse_statements_objects:
  assumes "parse_statements self parsed = Inr self'" and "obj \<in> set (objects self')"
  shows "obj \<in> set (objects self)
     \<or> (name obj \<noteq> [] \<and> type' obj \<noteq> CTE
         \<and> (\<exists>statement. statement \<in> set parsed
               \<and> get_object_type (strip statement) = Some (type' obj)
               \<and> extract_object_name (strip statement) (type' obj) = Some (name obj)
               \<and> definition' obj = strip statement))"
  using assms
proof (induction parsed arbitrary: self)
  case Nil
  then show ?case by simp
next
  case (Cons statement parsed)
  from Cons.prems(1) obtain self1 where
    step: "parse_statement self statement = Inr self1" and
    rest: "parse_statements self1 parsed = Inr self'"
    by (auto split: sum.splits)
  from Cons.IH [OF rest Cons.prems(2)] parse_statement_objects [OF step]
  show ?case by auto
qed

lemma parse_statement_no_name:
  assumes "get_object_type (strip statement) = Some t"
    and "extract_object_name (strip statement) t = None"
  shows "\<exists>self'. parse_statement self statement = Inr self' \<and> objects self' = objects self"
  using assms by (simp add: parse_statement_def Let_def)

lemma parse_statement_comment:
  assumes "strip s = s" and "get_object_type s = Some COMMENT"
    and "extract_object_name s COMMENT = Some kw" and "kw \<noteq> []"
  shows "\<exists>self' obj. parse_statement self s = Inr self'
          \<and> objects self' = objects self @ [obj] \<and> name obj = kw \<and> type' obj = COMMENT"
proof -
  from assms(2) have "s \<noteq> []"
    by (auto simp: get_object_type_def startswith_def upper_def)
  with assms show ?thesis
    by (simp add: parse_statement_def Let_def)
qed

text \<open>
  The parser can raise: a CTE written with a lower-case \<^verbatim>\<open>as\<close> passes the test on the
  upper-cased text and fails the unpacking of the split on \<^verbatim>\<open>' AS '\<close>.
\<close>

lemma parse_file_raises_ValueError:
  "parse_file [''CREATE OR REPLACE VIEW v AS WITH c as (SELECT 1) SELECT a FROM c'']
     = Inl ValueError"
  by code_simp

section \<open>Properties of the comparator\<close>

subsection \<open>Sets\<close>

lemma set_diff_empty: "set_diff a b = [] \<longleftrightarrow> set a \<subseteq> set b"
  by (auto simp: set_diff_def filter_empty_conv)

lemma set_diff_self: "set_diff a a = []"
  by (simp add: set_diff_empty)

lemma set_inter_self: "distinct a \<Longrightarrow> set_inter a a = a"
  by (simp add: set_inter_def)

subsection \<open>An object compared with itself\<close>

lemma clause_matching_self: "clause_matching c c = clause_total c"
  by (simp add: clause_matching_def clause_total_def split: option.splits)

lemma cte_definition_differs_self: "cte_definition_differs cs cs n = []"
  by (simp add: cte_definition_differs_def split: option.splits)

text \<open>
  An object matches itself, and its accuracy is what \<^verbatim>\<open>difflib\<close> gives for two equal
  strings. Its completeness is 100 when no column, no CTE name and no join key occurs
  twice in it.
\<close>

lemma compare_objects_identical:
  "status (compare_objects lib obj obj) = ''MATCH''"
  "differences (compare_objects lib obj obj) = []"
  "accuracy_percentage (compare_objects lib obj obj)
     = ratio lib (join '' '' (split_ws (definition' obj)))
         (join '' '' (split_ws (definition' obj))) * 100"
  by (simp_all add: compare_objects_def compare_columns_def compare_ctes_def compare_joins_def
      compare_clauses_def compare_comments_def compare_functions_def set_diff_self
      cte_definition_differs_self calculate_accuracy_def Let_def)

lemma calculate_completeness_identical:
  assumes "distinct (columns obj)" and "distinct (map cte_name (ctes obj))"
    and "distinct (map join_key (joins obj))"
  shows "calculate_completeness obj obj = 100"
proof -
  have "length (set_inter (map cte_name (ctes obj)) (map cte_name (ctes obj))) = length (ctes obj)"
    "length (set_inter (map join_key (joins obj)) (map join_key (joins obj))) = length (joins obj)"
    using assms(2,3) by (simp_all add: set_inter_self)
  then have "matching_components obj obj = total_components obj"
    using assms(1)
    by (simp add: matching_components_def total_components_def set_inter_self
        clause_matching_self)
  then show ?thesis
    by (simp add: calculate_completeness_def)
qed

subsection \<open>The dictionaries\<close>

text \<open>The dictionary of a side maps a name to the last object of that name.\<close>

lemma map_of_lookup_of: "map_of (lookup_of objs) n = find (\<lambda>obj. name obj = n) (rev objs)"
proof (induction objs rule: rev_induct)
  case Nil
  show ?case by (simp add: lookup_of_def)
next
  case (snoc x xs)
  have "lookup_of (xs @ [x]) = AList.update (name x) x (lookup_of xs)"
    by (simp add: lookup_of_def)
  with snoc show ?case
    by (simp add: update_conv')
qed

lemma keys_lookup_of: "fst ` set (lookup_of objs) = name ` set objs"
proof (induction objs rule: rev_induct)
  case Nil
  show ?case by (simp add: lookup_of_def)
next
  case (snoc x xs)
  have "lookup_of (xs @ [x]) = AList.update (name x) x (lookup_of xs)"
    by (simp add: lookup_of_def)
  with snoc show ?case
    by (simp add: dom_update)
qed

lemma map_of_lookup_of_name:
  assumes "map_of (lookup_of objs) n = Some obj"
  shows "name obj = n"
  using assms by (auto simp: map_of_lookup_of find_Some_iff)

lemma find_rev_last:
  assumes "\<forall>z\<in>set zs. \<not> P z" and "P x"
  shows "find P (rev (xs @ x # zs)) = Some x"
  using assms by (induction zs rule: rev_induct) auto

subsection \<open>One result for each name\<close>

lemma compare_name_object_name:
  assumes "compare_name lib n source_obj docker_obj = Inr r"
    and "\<And>s. source_obj = Some s \<Longrightarrow> name s = n"
  shows "object_name r = n"
  using assms
  by (auto simp: compare_name_def compare_objects_def Let_def split: option.splits)

lemma compare_names_results:
  assumes "set ns \<subseteq> fst ` set sl \<union> fst ` set dl"
  shows "\<exists>rs. compare_names lib sl dl ns = Inr rs
     \<and> list_all2 (\<lambda>n r. compare_name lib n (map_of sl n) (map_of dl n) = Inr r) ns rs"
  using assms
proof (induction ns)
  case Nil
  show ?case by simp
next
  case (Cons n ns)
  then obtain rs where rs: "compare_names lib sl dl ns = Inr rs"
    "list_all2 (\<lambda>n r. compare_name lib n (map_of sl n) (map_of dl n) = Inr r) ns rs"
    by auto
  from Cons.prems have "map_of sl n \<noteq> None \<or> map_of dl n \<noteq> None"
    by (auto simp: map_of_eq_None_iff)
  then have "\<exists>r. compare_name lib n (map_of sl n) (map_of dl n) = Inr r"
    by (cases "map_of sl n"; cases "map_of dl n") (simp_all add: compare_name_def)
  then obtain r where r: "compare_name lib n (map_of sl n) (map_of dl n) = Inr r" ..
  with rs show ?case by simp
qed

lemma filter_results_absent:
  assumes "list_all2 P ns rs" and "m \<notin> set ns"
    and "\<And>n r. P n r \<Longrightarrow> object_name r = n"
  shows "filter (\<lambda>r. object_name r = m) rs = []"
  using assms by (induction rule: list_all2_induct) auto

lemma filter_results_present:
  assumes "list_all2 P ns rs" and "distinct ns" and "m \<in> set ns"
    and "\<And>n r. P n r \<Longrightarrow> object_name r = n"
  shows "\<exists>r. filter (\<lambda>r. object_name r = m) rs = [r] \<and> P m r"
  using assms
proof (induction rule: list_all2_induct)
  case Nil
  then show ?case by simp
next
  case (Cons n ns r rs)
  show ?case
  proof (cases "m = n")
    case True
    with Cons.prems have "m \<notin> set ns" by simp
    with Cons.hyps(2) have "filter (\<lambda>r. object_name r = m) rs = []"
      using Cons.prems(3) by (intro filter_results_absent [where P = P and ns = ns]) auto
    with True Cons.hyps(1) Cons.prems(3) show ?thesis by auto
  next
    case False
    with Cons.prems have "m \<in> set ns" "distinct ns" by auto
    with Cons.IH Cons.prems(3) obtain r' where
      "filter (\<lambda>r. object_name r = m) rs = [r']" "P m r'"
      by blast
    moreover from False Cons.hyps(1) Cons.prems(3) have "object_name r \<noteq> m" by auto
    ultimately show ?thesis by simp
  qed
qed

text \<open>
  \<^verbatim>\<open>compare_files\<close> never raises. Its results hold exactly one result for each name of
  either side, computed from the last object of that name on each side, and no result
  for any other name.
\<close>

lemma compare_files_results:
  "\<exists>rs. compare_files lib source_objects docker_objects = Inr rs
     \<and> (\<forall>n. n \<in> name ` set source_objects \<union> name ` set docker_objects \<longrightarrow>
           (\<exists>r. filter (\<lambda>r. object_name r = n) rs = [r]
              \<and> compare_name lib n (find (\<lambda>obj. name obj = n) (rev source_objects))
                    (find (\<lambda>obj. name obj = n) (rev docker_objects)) = Inr r))
     \<and> (\<forall>n. n \<notin> name ` set source_objects \<union> name ` set docker_objects \<longrightarrow>
           filter (\<lambda>r. object_name r = n) rs = [])"
proof -
  let ?sl = "lookup_of source_objects" and ?dl = "lookup_of docker_objects"
  let ?ns = "all_names ?sl ?dl"
  let ?P = "\<lambda>n r. compare_name lib n (map_of ?sl n) (map_of ?dl n) = Inr r"
  have ns: "set ?ns = name ` set source_objects \<union> name ` set docker_objects" "distinct ?ns"
    by (simp_all add: all_names_def keys_lookup_of)
  then have "set ?ns \<subseteq> fst ` set ?sl \<union> fst ` set ?dl"
    by (simp add: keys_lookup_of)
  then obtain rs where rs: "compare_names lib ?sl ?dl ?ns = Inr rs" "list_all2 ?P ?ns rs"
    using compare_names_results by blast
  have nm: "\<And>n r. ?P n r \<Longrightarrow> object_name r = n"
    by (erule compare_name_object_name) (rule map_of_lookup_of_name)
  have "compare_files lib source_objects docker_objects = Inr rs"
    using rs(1) by (simp add: compare_files_def)
  moreover have "\<exists>r. filter (\<lambda>r. object_name r = n) rs = [r]
              \<and> compare_name lib n (find (\<lambda>obj. name obj = n) (rev source_objects))
                    (find (\<lambda>obj. name obj = n) (rev docker_objects)) = Inr r"
    if "n \<in> name ` set source_objects \<union> name ` set docker_objects" for n
    using filter_results_present [of ?P ?ns rs n, OF rs(2) ns(2) _ nm] that ns(1)
    by (simp add: map_of_lookup_of)
  moreover have "filter (\<lambda>r. object_name r = n) rs = []"
    if "n \<notin> name ` set source_objects \<union> name ` set docker_objects" for n
    using filter_results_absent [of ?P ?ns rs n, OF rs(2) _ nm] that ns(1)
    by simp
  ultimately show ?thesis by blast
qed

section \<open>The claims\<close>

text \<open>
  Claim C1: for every statement of the form
  \<^verbatim>\<open>CREATE OR REPLACE VIEW name AS SELECT a, b FROM t WHERE x=1\<close> with two plain column
  names the extractor emits one object of type \<^verbatim>\<open>VIEW\<close> with the name after
  \<^verbatim>\<open>VIEW\<close>, the columns \<^verbatim>\<open>[a, b]\<close> and the WHERE clause \<^verbatim>\<open>x=1\<close>.

  The parser does not do this for a second column whose name starts with \<^verbatim>\<open>from\<close>:
  the pattern \<^verbatim>\<open>SELECT\s+(.*?)\s+FROM\<close> ends the SELECT list at the first white space
  that the letters \<^verbatim>\<open>from\<close> follow, in any case, whether or not the word ends there.
  For the columns \<^verbatim>\<open>a, from_date\<close> the object has the single column \<^verbatim>\<open>a\<close>; name,
  type and WHERE clause are as the claim says.
\<close>

theorem C1_from_prefixed_column_lost:
  "parse_file [''CREATE OR REPLACE VIEW v AS SELECT a, from_date FROM t WHERE x=1''] =
     Inr [\<lparr>name = ''v'', type' = VIEW,
           definition' = ''CREATE OR REPLACE VIEW v AS SELECT a, from_date FROM t WHERE x=1'',
           start_line = 1, end_line = 1, comments = [], columns = [''a''], joins = [],
           where_clause = Some ''x=1'', group_by = None, order_by = None, ctes = [],
           parameters = None, return_type = None, grants = None\<rparr>]"
  by code_simp

text \<open>
  On the statement that the specification writes out, the parser does what the claim
  says.
\<close>

lemma parse_file_view_example:
  "parse_file [''CREATE OR REPLACE VIEW name AS SELECT a, b FROM t WHERE x=1''] =
     Inr [\<lparr>name = ''name'', type' = VIEW,
           definition' = ''CREATE OR REPLACE VIEW name AS SELECT a, b FROM t WHERE x=1'',
           start_line = 1, end_line = 1, comments = [], columns = [''a'', ''b''], joins = [],
           where_clause = Some ''x=1'', group_by = None, order_by = None, ctes = [],
           parameters = None, return_type = None, grants = None\<rparr>]"
  by code_simp

text \<open>
  Claim C2: two sequences of objects with the same names and, name by name, the same
  definition text give results that all have the status \<^verbatim>\<open>MATCH\<close>, completeness 100
  and accuracy 100.

  The completeness of an object against itself is below 100 as soon as the object lists
  a column twice: \<^verbatim>\<open>_calculate_completeness\<close> counts the list of the source's columns
  in the total and the set of the common columns in the matching count. The view
  \<^verbatim>\<open>SELECT o.id, c.id FROM o, c\<close> has the columns \<^verbatim>\<open>['id', 'id']\<close>; compared with
  itself it has the status \<^verbatim>\<open>MATCH\<close> and the completeness 50. Its accuracy is what
  \<^verbatim>\<open>difflib\<close> gives for two equal strings.
\<close>

theorem C2_identical_view_half_complete:
  "\<exists>objs r.
     parse_file [''CREATE OR REPLACE VIEW v AS SELECT o.id, c.id FROM o, c''] = Inr objs
     \<and> map columns objs = [[''id'', ''id'']]
     \<and> compare_files lib objs objs = Inr [r]
     \<and> status r = ''MATCH''
     \<and> completeness_percentage r = 50
     \<and> accuracy_percentage r =
         ratio lib ''CREATE OR REPLACE VIEW v AS SELECT o.id, c.id FROM o, c''
           ''CREATE OR REPLACE VIEW v AS SELECT o.id, c.id FROM o, c'' * 100"
proof -
  let ?view = "\<lparr>name = ''v'', type' = VIEW,
      definition' = ''CREATE OR REPLACE VIEW v AS SELECT o.id, c.id FROM o, c'',
      start_line = 1, end_line = 1, comments = [], columns = [''id'', ''id''], joins = [],
      where_clause = None, group_by = None, order_by = None, ctes = [],
      parameters = None, return_type = None, grants = None\<rparr>"
  have parsed:
    "parse_file [''CREATE OR REPLACE VIEW v AS SELECT o.id, c.id FROM o, c''] = Inr [?view]"
    by code_simp
  have "\<exists>r. compare_files lib [?view] [?view] = Inr [r]
     \<and> status r = ''MATCH''
     \<and> completeness_percentage r = 50
     \<and> accuracy_percentage r =
         ratio lib ''CREATE OR REPLACE VIEW v AS SELECT o.id, c.id FROM o, c''
           ''CREATE OR REPLACE VIEW v AS SELECT o.id, c.id FROM o, c'' * 100"
    by (simp add: compare_files_def lookup_of_def all_names_def compare_name_def
        compare_objects_def compare_columns_def set_diff_def set_inter_def compare_ctes_def
        compare_joins_def compare_clauses_def compare_comments_def calculate_completeness_def
        total_components_def matching_components_def clause_total_def clause_matching_def
        calculate_accuracy_def split_ws_def isspace_def)
  with parsed show ?thesis by force
qed

text \<open>
  Claim C3: the reference \<^verbatim>\<open>CREATE TABLE t (id INT, name TEXT, PRIMARY KEY (id))\<close>
  compared with the candidate \<^verbatim>\<open>CREATE TABLE t (id INT)\<close> gives, for \<^verbatim>\<open>t\<close>, one
  result with the status \<^verbatim>\<open>DIFFERENT\<close>, the missing components
  \<^verbatim>\<open>["Missing column: name"]\<close> and a completeness below 100 (it is 50), whatever
  \<^verbatim>\<open>difflib\<close> computes.
\<close>

theorem C3_missing_column_scenario:
  "\<exists>reference candidate r.
     parse_file [''CREATE TABLE t (id INT, name TEXT, PRIMARY KEY (id))''] = Inr reference
     \<and> parse_file [''CREATE TABLE t (id INT)''] = Inr candidate
     \<and> compare_files lib reference candidate = Inr [r]
     \<and> object_name r = ''t''
     \<and> status r = ''DIFFERENT''
     \<and> missing_components r = [''Missing column: name'']
     \<and> completeness_percentage r = 50
     \<and> completeness_percentage r < 100"
proof -
  let ?reference = "\<lparr>name = ''t'', type' = TABLE,
      definition' = ''CREATE TABLE t (id INT, name TEXT, PRIMARY KEY (id))'',
      start_line = 1, end_line = 1, comments = [], columns = [''id'', ''name''], joins = [],
      where_clause = None, group_by = None, order_by = None, ctes = [],
      parameters = None, return_type = None, grants = None\<rparr>"
  let ?candidate = "\<lparr>name = ''t'', type' = TABLE, definition' = ''CREATE TABLE t (id INT)'',
      start_line = 1, end_line = 1, comments = [], columns = [''id''], joins = [],
      where_clause = None, group_by = None, order_by = None, ctes = [],
      parameters = None, return_type = None, grants = None\<rparr>"
  have reference:
    "parse_file [''CREATE TABLE t (id INT, name TEXT, PRIMARY KEY (id))''] = Inr [?reference]"
    by code_simp
  have candidate: "parse_file [''CREATE TABLE t (id INT)''] = Inr [?candidate]"
    by code_simp
  have "\<exists>r. compare_files lib [?reference] [?candidate] = Inr [r]
     \<and> object_name r = ''t'' \<and> status r = ''DIFFERENT''
     \<and> missing_components r = [''Missing column: name'']
     \<and> completeness_percentage r = 50 \<and> completeness_percentage r < 100"
    by (simp add: compare_files_def lookup_of_def all_names_def compare_name_def
        compare_objects_def compare_columns_def set_diff_def set_inter_def compare_ctes_def
        compare_joins_def compare_clauses_def compare_comments_def calculate_completeness_def
        total_components_def matching_components_def clause_total_def clause_matching_def)
  with reference candidate show ?thesis
    by blast
qed

theorem C3_missing_column_scenario_witness:
  "\<exists>reference candidate r.
     parse_file [''CREATE TABLE t (id INT, name TEXT, PRIMARY KEY (id))''] = Inr reference
     \<and> parse_file [''CREATE TABLE t (id INT)''] = Inr candidate
     \<and> compare_files \<lparr>ratio = \<lambda>a b. 1, unified_diff = \<lambda>a b. []\<rparr> reference candidate = Inr [r]
     \<and> object_name r = ''t''
     \<and> status r = ''DIFFERENT''
     \<and> missing_components r = [''Missing column: name'']
     \<and> completeness_percentage r = 50
     \<and> completeness_percentage r < 100"
  using C3_missing_column_scenario [of "\<lparr>ratio = \<lambda>a b. 1, unified_diff = \<lambda>a b. []\<rparr>"]
  by simp

text \<open>
  Claim C4: a name that only the reference has gives exactly one result of that name,
  with the status \<^verbatim>\<open>MISSING\<close>, completeness 0, accuracy 0 and the one difference that
  notes the absence; with the two sequences swapped the name gives exactly one result
  with the status \<^verbatim>\<open>EXTRA\<close>, completeness 0, accuracy 0 and the one difference that
  notes the presence.
\<close>

theorem C4_missing_extra_symmetry:
  assumes "n \<in> name ` set reference" and "n \<notin> name ` set candidate"
  shows "\<exists>rs r rs' r'.
      compare_files lib reference candidate = Inr rs
    \<and> filter (\<lambda>r. object_name r = n) rs = [r]
    \<and> status r = ''MISSING''
    \<and> completeness_percentage r = 0 \<and> accuracy_percentage r = 0
    \<and> differences r =
        [''Object '' @ [apostrophe] @ n @ [apostrophe] @ '' exists in source but missing in Docker'']
    \<and> compare_files lib candidate reference = Inr rs'
    \<and> filter (\<lambda>r. object_name r = n) rs' = [r']
    \<and> status r' = ''EXTRA''
    \<and> completeness_percentage r' = 0 \<and> accuracy_percentage r' = 0
    \<and> differences r' =
        [''Object '' @ [apostrophe] @ n @ [apostrophe] @ '' exists in Docker but not in source'']"
proof -
  let ?in_reference = "find (\<lambda>obj. name obj = n) (rev reference)"
  let ?in_candidate = "find (\<lambda>obj. name obj = n) (rev candidate)"
  from assms(1) obtain obj where obj: "?in_reference = Some obj"
    by (cases ?in_reference) (auto simp: find_None_iff)
  from assms(2) have none: "?in_candidate = None"
    by (auto simp: find_None_iff)
  from assms(1) compare_files_results [of lib reference candidate]
  obtain rs r where rs: "compare_files lib reference candidate = Inr rs"
    "filter (\<lambda>r. object_name r = n) rs = [r]"
    "compare_name lib n ?in_reference ?in_candidate = Inr r"
    by blast
  from assms(1) compare_files_results [of lib candidate reference]
  obtain rs' r' where rs': "compare_files lib candidate reference = Inr rs'"
    "filter (\<lambda>r. object_name r = n) rs' = [r']"
    "compare_name lib n ?in_candidate ?in_reference = Inr r'"
    by blast
  from rs(3) obj none have r: "status r = ''MISSING''"
    "completeness_percentage r = 0" "accuracy_percentage r = 0"
    "differences r =
        [''Object '' @ [apostrophe] @ n @ [apostrophe] @ '' exists in source but missing in Docker'']"
    by (auto simp: compare_name_def)
  from rs'(3) obj none have r': "status r' = ''EXTRA''"
    "completeness_percentage r' = 0" "accuracy_percentage r' = 0"
    "differences r' =
        [''Object '' @ [apostrophe] @ n @ [apostrophe] @ '' exists in Docker but not in source'']"
    by (auto simp: compare_name_def)
  from rs(1,2) rs'(1,2) r r' show ?thesis
    by blast
qed

theorem C4_missing_extra_symmetry_witness:
  "''idx'' \<in> name ` set [create_basic_object 1 ''idx'' INDEX ''CREATE INDEX idx ON t (c)'' []]
   \<and> ''idx'' \<notin> name ` set []
   \<and> (\<exists>rs r rs' r'.
      compare_files \<lparr>ratio = \<lambda>a b. 1, unified_diff = \<lambda>a b. []\<rparr>
        [create_basic_object 1 ''idx'' INDEX ''CREATE INDEX idx ON t (c)'' []] [] = Inr rs
    \<and> filter (\<lambda>r. object_name r = ''idx'') rs = [r]
    \<and> status r = ''MISSING''
    \<and> completeness_percentage r = 0 \<and> accuracy_percentage r = 0
    \<and> differences r =
        [''Object '' @ [apostrophe] @ ''idx'' @ [apostrophe]
         @ '' exists in source but missing in Docker'']
    \<and> compare_files \<lparr>ratio = \<lambda>a b. 1, unified_diff = \<lambda>a b. []\<rparr> []
         [create_basic_object 1 ''idx'' INDEX ''CREATE INDEX idx ON t (c)'' []] = Inr rs'
    \<and> filter (\<lambda>r. object_name r = ''idx'') rs' = [r']
    \<and> status r' = ''EXTRA''
    \<and> completeness_percentage r' = 0 \<and> accuracy_percentage r' = 0
    \<and> differences r' =
        [''Object '' @ [apostrophe] @ ''idx'' @ [apostrophe]
         @ '' exists in Docker but not in source''])"
proof -
  have h1: "''idx'' \<in> name ` set [create_basic_object 1 ''idx'' INDEX ''CREATE INDEX idx ON t (c)'' []]"
    by (simp add: create_basic_object_def)
  have h2: "''idx'' \<notin> name ` set []"
    by simp
  from h1 h2
    C4_missing_extra_symmetry [OF h1 h2, of "\<lparr>ratio = \<lambda>a b. 1, unified_diff = \<lambda>a b. []\<rparr>"]
  show ?thesis by blast
qed

text \<open>
  Claim C5: a statement that begins with \<^verbatim>\<open>CREATE UNIQUE INDEX name\<close> is classified as
  an index and gives an object of type \<^verbatim>\<open>INDEX\<close>.

  The classifier tests the prefix \<^verbatim>\<open>CREATE INDEX\<close> only, so it returns \<^verbatim>\<open>None\<close> for
  such a statement and the parser emits nothing, although the name pattern for
  \<^verbatim>\<open>INDEX\<close> provides for \<^verbatim>\<open>UNIQUE\<close> and finds the name.
\<close>

theorem C5_unique_index_not_classified:
  "get_object_type ''CREATE UNIQUE INDEX idx ON t (c)'' = None
   \<and> parse_file [''CREATE UNIQUE INDEX idx ON t (c)''] = Inr []
   \<and> extract_object_name ''CREATE UNIQUE INDEX idx ON t (c)'' INDEX = Some ''idx''
   \<and> map_sum id (map type') (parse_file [''CREATE INDEX idx ON t (c)'']) = Inr [INDEX]"
  by code_simp




text \<open>
  Claim C7: when a side holds two objects of the same name, the comparator gives exactly
  one result for that name, and it is computed from the later of the two (here
  \<open>later\<close> is the last object of the name \<open>n\<close> on its side, and the other side
  contributes its own last object of that name, if it has one). This holds for a
  duplicate on the source side and for a duplicate on the Docker side.
\<close>

theorem C7_last_write_wins:
  assumes "name first = n" and "name later = n" and "n \<notin> name ` set zs"
  shows "\<exists>rs r rs' r'.
      compare_files lib (xs @ first # ys @ later # zs) other = Inr rs
    \<and> filter (\<lambda>r. object_name r = n) rs = [r]
    \<and> compare_name lib n (Some later) (find (\<lambda>obj. name obj = n) (rev other)) = Inr r
    \<and> compare_files lib other (xs @ first # ys @ later # zs) = Inr rs'
    \<and> filter (\<lambda>r. object_name r = n) rs' = [r']
    \<and> compare_name lib n (find (\<lambda>obj. name obj = n) (rev other)) (Some later) = Inr r'"
proof -
  let ?side = "xs @ first # ys @ later # zs"
  have "find (\<lambda>obj. name obj = n) (rev ((xs @ first # ys) @ later # zs)) = Some later"
    using assms(2,3) by (intro find_rev_last) (auto simp: image_iff)
  then have later: "find (\<lambda>obj. name obj = n) (rev ?side) = Some later"
    by simp
  have n: "n \<in> name ` set ?side"
    using assms(2) by auto
  from n compare_files_results [of lib ?side other]
  obtain rs r where rs: "compare_files lib ?side other = Inr rs"
    "filter (\<lambda>r. object_name r = n) rs = [r]"
    "compare_name lib n (find (\<lambda>obj. name obj = n) (rev ?side))
       (find (\<lambda>obj. name obj = n) (rev other)) = Inr r"
    by blast
  from n compare_files_results [of lib other ?side]
  obtain rs' r' where rs': "compare_files lib other ?side = Inr rs'"
    "filter (\<lambda>r. object_name r = n) rs' = [r']"
    "compare_name lib n (find (\<lambda>obj. name obj = n) (rev other))
       (find (\<lambda>obj. name obj = n) (rev ?side)) = Inr r'"
    by blast
  from rs rs' show ?thesis
    unfolding later by blast
qed

theorem C7_last_write_wins_witness:
  "name (create_basic_object 1 ''idx'' INDEX ''CREATE INDEX idx ON t (a)'' []) = ''idx''
   \<and> name (create_basic_object 2 ''idx'' INDEX ''CREATE INDEX idx ON t (b)'' []) = ''idx''
   \<and> ''idx'' \<notin> name ` set []
   \<and> (\<exists>rs r rs' r'.
        compare_files \<lparr>ratio = \<lambda>a b. 1, unified_diff = \<lambda>a b. []\<rparr>
          [create_basic_object 1 ''idx'' INDEX ''CREATE INDEX idx ON t (a)'' [],
           create_basic_object 2 ''idx'' INDEX ''CREATE INDEX idx ON t (b)'' []] [] = Inr rs
      \<and> filter (\<lambda>r. object_name r = ''idx'') rs = [r]
      \<and> compare_name \<lparr>ratio = \<lambda>a b. 1, unified_diff = \<lambda>a b. []\<rparr> ''idx''
           (Some (create_basic_object 2 ''idx'' INDEX ''CREATE INDEX idx ON t (b)'' []))
           (find (\<lambda>obj. name obj = ''idx'') (rev [])) = Inr r
      \<and> compare_files \<lparr>ratio = \<lambda>a b. 1, unified_diff = \<lambda>a b. []\<rparr> []
          [create_basic_object 1 ''idx'' INDEX ''CREATE INDEX idx ON t (a)'' [],
           create_basic_object 2 ''idx'' INDEX ''CREATE INDEX idx ON t (b)'' []] = Inr rs'
      \<and> filter (\<lambda>r. object_name r = ''idx'') rs' = [r']
      \<and> compare_name \<lparr>ratio = \<lambda>a b. 1, unified_diff = \<lambda>a b. []\<rparr> ''idx''
           (find (\<lambda>obj. name obj = ''idx'') (rev []))
           (Some (create_basic_object 2 ''idx'' INDEX ''CREATE INDEX idx ON t (b)'' [])) = Inr r')"
proof -
  have h1: "name (create_basic_object 1 ''idx'' INDEX ''CREATE INDEX idx ON t (a)'' []) = ''idx''"
    by (simp add: create_basic_object_def)
  have h2: "name (create_basic_object 2 ''idx'' INDEX ''CREATE INDEX idx ON t (b)'' []) = ''idx''"
    by (simp add: create_basic_object_def)
  have h3: "''idx'' \<notin> name ` set []"
    by simp
  from C7_last_write_wins [OF h1 h2 h3,
      of "\<lparr>ratio = \<lambda>a b. 1, unified_diff = \<lambda>a b. []\<rparr>" "[]" "[]" "[]"]
  have "\<exists>rs r rs' r'.
        compare_files \<lparr>ratio = \<lambda>a b. 1, unified_diff = \<lambda>a b. []\<rparr>
          [create_basic_object 1 ''idx'' INDEX ''CREATE INDEX idx ON t (a)'' [],
           create_basic_object 2 ''idx'' INDEX ''CREATE INDEX idx ON t (b)'' []] [] = Inr rs
      \<and> filter (\<lambda>r. object_name r = ''idx'') rs = [r]
      \<and> compare_name \<lparr>ratio = \<lambda>a b. 1, unified_diff = \<lambda>a b. []\<rparr> ''idx''
           (Some (create_basic_object 2 ''idx'' INDEX ''CREATE INDEX idx ON t (b)'' []))
           (find (\<lambda>obj. name obj = ''idx'') (rev [])) = Inr r
      \<and> compare_files \<lparr>ratio = \<lambda>a b. 1, unified_diff = \<lambda>a b. []\<rparr> []
          [create_basic_object 1 ''idx'' INDEX ''CREATE INDEX idx ON t (a)'' [],
           create_basic_object 2 ''idx'' INDEX ''CREATE INDEX idx ON t (b)'' []] = Inr rs'
      \<and> filter (\<lambda>r. object_name r = ''idx'') rs' = [r']
      \<and> compare_name \<lparr>ratio = \<lambda>a b. 1, unified_diff = \<lambda>a b. []\<rparr> ''idx''
           (find (\<lambda>obj. name obj = ''idx'') (rev []))
           (Some (create_basic_object 2 ''idx'' INDEX ''CREATE INDEX idx ON t (b)'' [])) = Inr r'"
    by simp
  with h1 h2 h3 show ?thesis
    by blast
qed

text \<open>
  Claim C8: whatever the input, every object that the extractor returns has a non-empty
  name and a type, and a statement whose name pattern does not match adds no object.
  Here: when \<^verbatim>\<open>parse_file\<close> returns (it can raise, see
  \<open>parse_file_raises_ValueError\<close>), each object of its list has a non-empty name and
  a type other than \<^verbatim>\<open>CTE\<close>, and they are the type that the classifier gave and the
  name that the name pattern captured for one of the statements; and a statement that
  has a type and for which the name pattern finds nothing leaves the list of objects as
  it is. The fields \<^verbatim>\<open>columns\<close>, \<^verbatim>\<open>ctes\<close> and \<^verbatim>\<open>joins\<close> are lists in the record
  \<^typ>\<open>SQLObject\<close>, as every constructor call of the parser passes a list for them, so
  that they are never absent holds by the type of the record.
\<close>

theorem C8_emitted_objects_named_and_typed:
  assumes "parse_file parsed = Inr objs" and "obj \<in> set objs"
  shows "name obj \<noteq> [] \<and> type' obj \<noteq> CTE
     \<and> (\<exists>statement. statement \<in> set parsed
           \<and> get_object_type (strip statement) = Some (type' obj)
           \<and> extract_object_name (strip statement) (type' obj) = Some (name obj)
           \<and> definition' obj = strip statement)
     \<and> (\<forall>self statement t.
           get_object_type (strip statement) = Some t
           \<and> extract_object_name (strip statement) t = None
           \<longrightarrow> (\<exists>self'. parse_statement self statement = Inr self'
                   \<and> objects self' = objects self))"
proof -
  from assms(1) obtain self' where
    "parse_statements \<lparr>objects = [], current_line = 0\<rparr> parsed = Inr self'"
    "objects self' = objs"
    by (auto simp: parse_file_def split: sum.splits)
  with assms(2)
    parse_statements_objects [of "\<lparr>objects = [], current_line = 0\<rparr>" parsed self' obj]
  show ?thesis
    using parse_statement_no_name by auto
qed

theorem C8_emitted_objects_named_and_typed_witness:
  "parse_file [''CREATE TABLE t (id INT)'', ''CREATE TABLE (x INT)'']
     = Inr [\<lparr>name = ''t'', type' = TABLE, definition' = ''CREATE TABLE t (id INT)'',
             start_line = 1, end_line = 1, comments = [], columns = [''id''], joins = [],
             where_clause = None, group_by = None, order_by = None, ctes = [],
             parameters = None, return_type = None, grants = None\<rparr>]
   \<and> get_object_type (strip ''CREATE TABLE (x INT)'') = Some TABLE
   \<and> extract_object_name (strip ''CREATE TABLE (x INT)'') TABLE = None
   \<and> (\<exists>self'. parse_statement \<lparr>objects = [], current_line = 0\<rparr> ''CREATE TABLE (x INT)''
                 = Inr self'
        \<and> objects self' = objects \<lparr>objects = [], current_line = 0\<rparr>)"
proof -
  let ?t = "\<lparr>name = ''t'', type' = TABLE, definition' = ''CREATE TABLE t (id INT)'',
             start_line = 1, end_line = 1, comments = [], columns = [''id''], joins = [],
             where_clause = None, group_by = None, order_by = None, ctes = [],
             parameters = None, return_type = None, grants = None\<rparr>"
  have h1: "parse_file [''CREATE TABLE t (id INT)'', ''CREATE TABLE (x INT)''] = Inr [?t]"
    by code_simp
  have h2: "?t \<in> set [?t]"
    by simp
  have ty: "get_object_type (strip ''CREATE TABLE (x INT)'') = Some TABLE"
    by code_simp
  have nm: "extract_object_name (strip ''CREATE TABLE (x INT)'') TABLE = None"
    by code_simp
  from C8_emitted_objects_named_and_typed [OF h1 h2] ty nm
  have "\<exists>self'. parse_statement \<lparr>objects = [], current_line = 0\<rparr> ''CREATE TABLE (x INT)''
                 = Inr self'
        \<and> objects self' = objects \<lparr>objects = [], current_line = 0\<rparr>"
    by blast
  with h1 ty nm show ?thesis
    by blast
qed

text \<open>
  Claim C9: for every statement that begins, in any case, with \<^verbatim>\<open>CREATE VIEW \<close> the
  classifier returns \<^verbatim>\<open>None\<close>, on the text of the statement and on its stripped text,
  which is the one that \<^verbatim>\<open>_parse_statement\<close> classifies, and the parser adds no
  object; while the name pattern for \<^verbatim>\<open>VIEW\<close>, in which \<^verbatim>\<open>OR REPLACE\<close> is optional,
  finds the name in \<^verbatim>\<open>CREATE VIEW n ...\<close>.
\<close>

theorem C9_create_view_ignored:
  assumes "startswith (upper statement) ''CREATE VIEW ''"
  shows "get_object_type statement = None
    \<and> get_object_type (strip statement) = None
    \<and> (\<exists>self'. parse_statement self statement = Inr self' \<and> objects self' = objects self)
    \<and> (\<forall>n rest. n \<noteq> [] \<and> (\<forall>c\<in>set n. isword c) \<longrightarrow>
          extract_object_name (''CREATE VIEW '' @ n @ '' '' @ rest) VIEW = Some n)"
proof -
  from assms have "startswith (upper statement) ''CREATE VIEW''"
    by (auto simp: startswith_def prefix_def)
  then have raw: "get_object_type statement = None"
    by (rule get_object_type_create_view)
  from assms have "startswith (upper (strip statement)) ''CREATE VIEW''"
    by (rule strip_create_view)
  then have stripped: "get_object_type (strip statement) = None"
    by (rule get_object_type_create_view)
  from raw stripped parse_statement_no_type [OF stripped] extract_object_name_create_view
  show ?thesis
    by blast
qed

theorem C9_create_view_ignored_witness:
  "startswith (upper ''create view v AS SELECT 1'') ''CREATE VIEW ''
   \<and> get_object_type ''create view v AS SELECT 1'' = None
   \<and> get_object_type (strip ''create view v AS SELECT 1'') = None
   \<and> parse_statement \<lparr>objects = [], current_line = 0\<rparr> ''create view v AS SELECT 1''
       = Inr \<lparr>objects = [], current_line = 1\<rparr>
   \<and> extract_object_name ''CREATE VIEW v AS SELECT 1'' VIEW = Some ''v''"
proof -
  have h: "startswith (upper ''create view v AS SELECT 1'') ''CREATE VIEW ''"
    by code_simp
  have w: "''v'' \<noteq> [] \<and> (\<forall>c\<in>set ''v''. isword c)"
    by (simp add: isword_def lowercase_def)
  have p: "parse_statement \<lparr>objects = [], current_line = 0\<rparr> ''create view v AS SELECT 1''
       = Inr \<lparr>objects = [], current_line = 1\<rparr>"
    by code_simp
  from C9_create_view_ignored [OF h, of "\<lparr>objects = [], current_line = 0\<rparr>"] w
  have "get_object_type ''create view v AS SELECT 1'' = None"
    and "get_object_type (strip ''create view v AS SELECT 1'') = None"
    and "extract_object_name (''CREATE VIEW '' @ ''v'' @ '' '' @ ''AS SELECT 1'') VIEW = Some ''v''"
    by blast+
  with h p show ?thesis
    by simp
qed

text \<open>
  Claim C10: for every statement \<^verbatim>\<open>COMMENT ON TABLE <name> IS '...'\<close>, and likewise
  for any other word after \<^verbatim>\<open>ON\<close>, the name of the extracted object is that word and
  not the name of the commented object; so the comments on one class of objects share a
  name, and the comparator, which keys its dictionaries on the name, has at most one
  result for it, computed from the last object of that name on each side.
\<close>

theorem C10_comment_named_by_object_class:
  assumes "kw \<noteq> []" and "\<forall>c\<in>set kw. isword c"
  shows "(\<exists>self' obj.
            parse_statement self
              (''COMMENT ON '' @ kw @ '' '' @ qn @ '' IS '' @ [apostrophe] @ txt @ [apostrophe])
              = Inr self'
          \<and> objects self' = objects self @ [obj] \<and> name obj = kw \<and> type' obj = COMMENT)
     \<and> (\<exists>rs. compare_files lib source_objects docker_objects = Inr rs
          \<and> (filter (\<lambda>r. object_name r = kw) rs = []
              \<or> (\<exists>r. filter (\<lambda>r. object_name r = kw) rs = [r]
                   \<and> compare_name lib kw (find (\<lambda>obj. name obj = kw) (rev source_objects))
                        (find (\<lambda>obj. name obj = kw) (rev docker_objects)) = Inr r)))"
proof -
  let ?s = "''COMMENT ON '' @ kw @ '' '' @ qn @ '' IS '' @ [apostrophe] @ txt @ [apostrophe]"
  have "?s = (''COMMENT ON '' @ kw @ '' '' @ qn @ '' IS '' @ [apostrophe] @ txt) @ [apostrophe]"
    by simp
  then have "last ?s = apostrophe"
    by (simp only: last_snoc)
  then have strip: "strip ?s = ?s"
    by (intro strip_id) (simp_all add: isspace_def apostrophe_def)
  have ty: "get_object_type ?s = Some COMMENT"
    by (rule get_object_type_comment_on)
  have nm: "extract_object_name ?s COMMENT = Some kw"
    using assms by (rule extract_object_name_comment)
  have "\<exists>self' obj. parse_statement self ?s = Inr self'
          \<and> objects self' = objects self @ [obj] \<and> name obj = kw \<and> type' obj = COMMENT"
    using strip ty nm assms(1) by (rule parse_statement_comment)
  moreover have "\<exists>rs. compare_files lib source_objects docker_objects = Inr rs
          \<and> (filter (\<lambda>r. object_name r = kw) rs = []
              \<or> (\<exists>r. filter (\<lambda>r. object_name r = kw) rs = [r]
                   \<and> compare_name lib kw (find (\<lambda>obj. name obj = kw) (rev source_objects))
                        (find (\<lambda>obj. name obj = kw) (rev docker_objects)) = Inr r))"
    using compare_files_results [of lib source_objects docker_objects]
    by (cases "kw \<in> name ` set source_objects \<union> name ` set docker_objects") auto
  ultimately show ?thesis by blast
qed

theorem C10_comment_named_by_object_class_witness:
  "list_all isword ''TABLE''
   \<and> (\<exists>self' obj.
        parse_statement \<lparr>objects = [], current_line = 0\<rparr>
          (''COMMENT ON '' @ ''TABLE'' @ '' '' @ ''claims.claim'' @ '' IS '' @ [apostrophe]
           @ ''Claims'' @ [apostrophe]) = Inr self'
        \<and> objects self' = objects \<lparr>objects = [], current_line = 0\<rparr> @ [obj]
        \<and> name obj = ''TABLE'' \<and> type' obj = COMMENT)
   \<and> (\<exists>rs. compare_files \<lparr>ratio = \<lambda>a b. 1, unified_diff = \<lambda>a b. []\<rparr>
              [create_basic_object 1 ''TABLE'' COMMENT ''COMMENT ON TABLE a IS NULL'' [],
               create_basic_object 2 ''TABLE'' COMMENT ''COMMENT ON TABLE b IS NULL'' []] []
              = Inr rs
        \<and> (filter (\<lambda>r. object_name r = ''TABLE'') rs = []
            \<or> (\<exists>r. filter (\<lambda>r. object_name r = ''TABLE'') rs = [r]
                 \<and> compare_name \<lparr>ratio = \<lambda>a b. 1, unified_diff = \<lambda>a b. []\<rparr> ''TABLE''
                      (find (\<lambda>obj. name obj = ''TABLE'')
                         (rev [create_basic_object 1 ''TABLE'' COMMENT ''COMMENT ON TABLE a IS NULL'' [],
                               create_basic_object 2 ''TABLE'' COMMENT ''COMMENT ON TABLE b IS NULL'' []]))
                      (find (\<lambda>obj. name obj = ''TABLE'') (rev [])) = Inr r)))"
proof -
  have h1: "''TABLE'' \<noteq> []"
    by simp
  have h2: "\<forall>c\<in>set ''TABLE''. isword c"
    by (simp add: isword_def lowercase_def uppercase_def digits_def)
  then have "list_all isword ''TABLE''"
    by (simp add: list_all_iff)
  with C10_comment_named_by_object_class [OF h1 h2,
      of "\<lparr>objects = [], current_line = 0\<rparr>" "''claims.claim''" "''Claims''"
         "\<lparr>ratio = \<lambda>a b. 1, unified_diff = \<lambda>a b. []\<rparr>"
         "[create_basic_object 1 ''TABLE'' COMMENT ''COMMENT ON TABLE a IS NULL'' [],
           create_basic_object 2 ''TABLE'' COMMENT ''COMMENT ON TABLE b IS NULL'' []]" "[]"]
  show ?thesis
    by blast
qed

end
